theory Spec2Isabelle
  imports Complex_Main "HOL-Library.Sublist" "HOL-Library.Char_ord" "HOL-Library.List_Lexorder"
    "HOL-Library.AList"
begin

section \<open>Numbers, errors and data frames\<close>

text \<open>
  Python floats are modelled as real numbers: arithmetic is exact, rounding is not modelled.
  The only non-finite float the analysis produces is \<open>np.inf\<close> (a cell without any
  distance record), so a distance column holds a finite real or \<open>+infinity\<close>.
\<close>

datatype xreal = Fin real | PInf

text \<open>\<open>x > t\<close> and \<open>x >= 0\<close> for a float that may be \<open>np.inf\<close>.\<close>

fun xgt :: "xreal \<Rightarrow> real \<Rightarrow> bool" where
  "xgt (Fin d) t = (d > t)"
| "xgt PInf t = True"

fun xnonneg :: "xreal \<Rightarrow> bool" where
  "xnonneg (Fin d) = (0 \<le> d)"
| "xnonneg PInf = True"

text \<open>\<open>Series.clip(upper=u)\<close> on one value: the smaller of the value and \<open>u\<close>.\<close>

fun clip_upper :: "real \<Rightarrow> xreal \<Rightarrow> real" where
  "clip_upper u (Fin d) = min d u"
| "clip_upper u PInf = u"

datatype error =
    KeyError string
  | ZeroDivisionError
  | ValueError string
  | FileNotFoundError string
  | OtherException string

text \<open>
  A pandas \<open>DataFrame\<close> whose rows are records of type \<open>'r\<close>. \<open>Table rows\<close> is a frame
  that has the columns of \<open>'r\<close> (possibly with no rows); \<open>NoColumns\<close> is the frame
  \<open>pd.DataFrame([])\<close>, which has neither rows nor columns, so that reading any column of
  it raises \<open>KeyError\<close>.
\<close>

datatype 'r dataframe = NoColumns | Table "'r list"

text \<open>\<open>pd.DataFrame(list_of_dicts)\<close>: the columns are the keys found in the dicts.\<close>

definition DataFrame :: "'r list \<Rightarrow> 'r dataframe" where
  "DataFrame rs = (if rs = [] then NoColumns else Table rs)"

fun len_df :: "'r dataframe \<Rightarrow> nat" where
  "len_df NoColumns = 0"
| "len_df (Table rs) = length rs"

fun iterrows :: "'r dataframe \<Rightarrow> 'r list" where
  "iterrows NoColumns = []"
| "iterrows (Table rs) = rs"

text \<open>
  \<open>Series.max()\<close> of a column: \<open>None\<close> stands for the \<open>NaN\<close> pandas returns on an
  empty column; every comparison with it is false.
\<close>

fun series_max :: "real list \<Rightarrow> real option" where
  "series_max [] = None"
| "series_max (x # xs) = (case series_max xs of None \<Rightarrow> Some x | Some m \<Rightarrow> Some (max x m))"

section \<open>Records of the analysis\<close>

record bounds =
  north :: real
  south :: real
  east :: real
  west :: real

record grid_cell =
  cell_id :: int
  center_lat :: real
  center_lng :: real
  lat_min :: real
  lat_max :: real
  lng_min :: real
  lng_max :: real

text \<open>The columns \<open>place_id\<close>, \<open>lat\<close> and \<open>lng\<close> of a facility table.\<close>

record place =
  place_id :: string
  p_lat :: real
  p_lng :: real

record distance_record =
  d_cell_id :: int
  d_place_id :: string
  distance_km :: real

text \<open>
  One row of the accessibility table: the five keys that \<open>analyze_accessibility\<close>
  writes for a cell (record \<open>metrics\<close>) and the two coordinates merged in from the
  grid. The fields carry the prefix \<open>a_\<close> where the grid record already uses the
  column's name.
\<close>

record metrics =
  a_cell_id :: int
  services_within_walking :: int
  nearest_distance_km :: xreal
  avg_distance_top3_km :: xreal
  density_per_km2 :: real

record accessibility = metrics +
  a_center_lat :: real
  a_center_lng :: real

record opportunity = accessibility +
  competition_gap :: real
  accessibility_gap :: real
  viability :: real
  opportunity_score :: real

section \<open>Grid Builder (analyze.py, create_analysis_grid)\<close>

definition radians :: "real \<Rightarrow> real" where
  "radians x = x * pi / 180"

text \<open>
  The two nested \<open>while\<close> loops. The state threaded through them is the list
  \<open>grid_cells\<close> and the counter \<open>cell_id\<close>. Nothing in the source bounds the number of
  iterations (a step that is not positive never leaves the loop), so the loops are
  partial functions: \<open>None\<close> means that the loop does not return.
\<close>

partial_function (option) lng_loop ::
  "bounds \<Rightarrow> real \<Rightarrow> real \<Rightarrow> real \<Rightarrow> grid_cell list \<times> int \<Rightarrow> real
     \<Rightarrow> (grid_cell list \<times> int) option" where
  "lng_loop b lat_step lng_step lat st lng =
     (if lng \<le> east b
      then lng_loop b lat_step lng_step lat
             (fst st @ [\<lparr>cell_id = snd st, center_lat = lat, center_lng = lng,
                         lat_min = lat - lat_step / 2, lat_max = lat + lat_step / 2,
                         lng_min = lng - lng_step / 2, lng_max = lng + lng_step / 2\<rparr>],
              snd st + 1)
             (lng + lng_step)
      else Some st)"

partial_function (option) lat_loop ::
  "bounds \<Rightarrow> real \<Rightarrow> real \<Rightarrow> grid_cell list \<times> int \<Rightarrow> real
     \<Rightarrow> (grid_cell list \<times> int) option" where
  "lat_loop b lat_step lng_step st lat =
     (if lat \<le> north b
      then Option.bind (lng_loop b lat_step lng_step lat st (west b))
             (\<lambda>st'. lat_loop b lat_step lng_step st' (lat + lat_step))
      else Some st)"

definition create_analysis_grid :: "bounds \<Rightarrow> real \<Rightarrow> grid_cell dataframe option" where
  "create_analysis_grid b grid_size_km =
     (let lat_step = grid_size_km / 111;
          mid_lat = (north b + south b) / 2;
          lng_step = grid_size_km / (111 * cos (radians mid_lat))
      in map_option (\<lambda>st. DataFrame (fst st))
           (lat_loop b lat_step lng_step ([], 0) (south b)))"

text \<open>
  The number of times the body of \<open>x = lo; while x <= hi: ...; x += step\<close> runs when
  the step is positive: the count used to state how many cells the loops produce.
\<close>

definition steps :: "real \<Rightarrow> real \<Rightarrow> real \<Rightarrow> nat" where
  "steps lo hi step = (if lo \<le> hi then nat \<lfloor>(hi - lo) / step\<rfloor> + 1 else 0)"

section \<open>Distance Matrix Builder (analyze.py, calculate_distance_matrix)\<close>

text \<open>
  \<open>geopy.distance.geodesic(a, b).kilometers\<close> is a library function and a parameter of
  the model. One record is appended per (cell, place) pair, cells outermost; the list of
  dicts is then turned into a frame.
\<close>

type_synonym geodesic = "real \<times> real \<Rightarrow> real \<times> real \<Rightarrow> real"

definition calculate_distance_matrix ::
  "geodesic \<Rightarrow> grid_cell dataframe \<Rightarrow> place dataframe \<Rightarrow> distance_record dataframe" where
  "calculate_distance_matrix geodesic_km grid_cells places =
     DataFrame (concat (map (\<lambda>cell.
        map (\<lambda>p. \<lparr>d_cell_id = cell_id cell, d_place_id = place_id p,
                   distance_km = geodesic_km (center_lat cell, center_lng cell) (p_lat p, p_lng p)\<rparr>)
            (iterrows places))
        (iterrows grid_cells)))"

section \<open>Accessibility Analyzer (analyze.py, analyze_accessibility)\<close>

text \<open>
  The body of the loop over \<open>grid_cells["cell_id"]\<close>, for a distance frame that has its
  columns: the cell's records sorted by distance, then the four metrics.
  Only the distances of the sorted records are read afterwards, so the order that
  \<open>sort_values\<close> gives to records of equal distance does not show in the result.
\<close>

definition cell_metrics :: "real \<Rightarrow> distance_record list \<Rightarrow> int \<Rightarrow> metrics" where
  "cell_metrics walking_distance_km distance_rows cid =
     (let cell_distances = sort_key distance_km (filter (\<lambda>d. d_cell_id d = cid) distance_rows);
          within_walking = length (filter (\<lambda>d. distance_km d \<le> walking_distance_km) cell_distances);
          nearest_distance =
            (if length cell_distances > 0 then Fin (distance_km (hd cell_distances)) else PInf);
          top_3 = take 3 cell_distances;
          avg_distance_top3 =
            (if length top_3 > 0
             then Fin (sum_list (map distance_km top_3) / real (length top_3)) else PInf);
          services_1km = length (filter (\<lambda>d. distance_km d \<le> 1.0) cell_distances);
          density = real services_1km / (pi * 1.0\<^sup>2)
      in \<lparr>a_cell_id = cid, services_within_walking = int within_walking,
          nearest_distance_km = nearest_distance, avg_distance_top3_km = avg_distance_top3,
          density_per_km2 = density\<rparr>)"

text \<open>
  \<open>df.merge(grid_cells[["cell_id", "center_lat", "center_lng"]], on="cell_id")\<close>: an inner
  join that keeps the order of the left rows and pairs each of them with every grid row of
  the same \<open>cell_id\<close>.
\<close>

definition merge_on_cell_id :: "metrics list \<Rightarrow> grid_cell list \<Rightarrow> accessibility list" where
  "merge_on_cell_id left right =
     concat (map (\<lambda>m.
        map (\<lambda>g. metrics.extend m (accessibility.fields (center_lat g) (center_lng g)))
            (filter (\<lambda>g. cell_id g = a_cell_id m) right))
        left)"

text \<open>
  The argument \<open>places\<close> of the source is never read and is left out. A grid frame without
  columns fails at \<open>grid_cells["cell_id"]\<close>; a distance frame without columns fails at
  \<open>distances["cell_id"]\<close> in the first iteration; a result list without rows gives a frame
  without columns, on which the merge fails.
\<close>

fun analyze_accessibility ::
  "grid_cell dataframe \<Rightarrow> distance_record dataframe \<Rightarrow> real
     \<Rightarrow> error + accessibility dataframe" where
  "analyze_accessibility NoColumns distances walking_distance_km = Inl (KeyError ''cell_id'')"
| "analyze_accessibility (Table cells) NoColumns walking_distance_km = Inl (KeyError ''cell_id'')"
| "analyze_accessibility (Table cells) (Table distance_rows) walking_distance_km =
     (case DataFrame (map (\<lambda>c. cell_metrics walking_distance_km distance_rows (cell_id c)) cells) of
        NoColumns \<Rightarrow> Inl (KeyError ''cell_id'')
      | Table results \<Rightarrow> Inr (Table (merge_on_cell_id results cells)))"

text \<open>The default of the keyword argument \<open>walking_distance_km\<close>.\<close>

definition default_walking_distance_km :: real where
  "default_walking_distance_km = 1.0"

section \<open>Desert Classifier (analyze.py, identify_service_deserts)\<close>

text \<open>
  The boolean mask \<open>(nearest_distance_km > threshold) | (services_within_walking < 2)\<close>
  selects the rows; the report printed afterwards divides by \<open>len(accessibility_df)\<close>,
  which raises \<open>ZeroDivisionError\<close> on a frame without rows.
\<close>

definition desert_mask :: "real \<Rightarrow> 'a accessibility_scheme \<Rightarrow> bool" where
  "desert_mask threshold_distance_km r \<longleftrightarrow>
     xgt (nearest_distance_km r) threshold_distance_km \<or> services_within_walking r < 2"

fun identify_service_deserts ::
  "accessibility dataframe \<Rightarrow> real \<Rightarrow> error + accessibility dataframe" where
  "identify_service_deserts NoColumns threshold_distance_km = Inl (KeyError ''nearest_distance_km'')"
| "identify_service_deserts (Table rows) threshold_distance_km =
     (let deserts = filter (desert_mask threshold_distance_km) rows
      in if length rows = 0 then Inl ZeroDivisionError else Inr (Table deserts))"

text \<open>The default of the keyword argument \<open>threshold_distance_km\<close>.\<close>

definition default_threshold_distance_km :: real where
  "default_threshold_distance_km = 1.5"

section \<open>Opportunity Scorer, supply-only policy (analyze.py, calculate_opportunity_scores)\<close>

text \<open>
  The lambda applied to \<open>services_within_walking\<close>:
  \<open>1.0 if 1 <= x <= 3 else 0.5 if x == 0 else max(0, 1 - (x - 3) / 10)\<close>.
\<close>

definition viability_of :: "int \<Rightarrow> real" where
  "viability_of x =
     (if 1 \<le> x \<and> x \<le> 3 then 1.0
      else if x = 0 then 0.5
      else max 0 (1 - (real_of_int x - 3) / 10))"

text \<open>
  The four column assignments on the copy \<open>df\<close>, row by row; \<open>max_density\<close> is computed
  once over the whole column before any row is scored.
\<close>

definition score_row :: "real option \<Rightarrow> accessibility \<Rightarrow> opportunity" where
  "score_row max_density r =
     (let cg = (case max_density of
                  Some m \<Rightarrow> if m > 0 then 1 - density_per_km2 r / m else 1.0
                | None \<Rightarrow> 1.0);
          ag = clip_upper 3.0 (nearest_distance_km r) / 3.0;
          v = viability_of (services_within_walking r)
      in accessibility.extend r
           (opportunity.fields cg ag v ((0.40 * cg + 0.40 * ag + 0.20 * v) * 10)))"

fun calculate_opportunity_scores ::
  "accessibility dataframe \<Rightarrow> error + opportunity dataframe" where
  "calculate_opportunity_scores NoColumns = Inl (KeyError ''density_per_km2'')"
| "calculate_opportunity_scores (Table rows) =
     (let max_density = series_max (map density_per_km2 rows)
      in Inr (Table (map (score_row max_density) rows)))"

section \<open>Opportunity Scorer, demand-weighted policy (population_data.py)\<close>

record populated = opportunity +
  population :: real
  population_1km :: real

record enriched = populated +
  demand_score :: real
  opportunity_score_original :: real

text \<open>
  \<open>recalculate_opportunity_with_population\<close>, row by row, in the order of the source:
  the normalised demand, the floor on \<open>demand_score\<close>, the copy of the old score, the new
  weighted score, the floor on \<open>opportunity_score\<close>. The columns \<open>competition_gap\<close>,
  \<open>accessibility_gap\<close> and \<open>viability\<close> are fields of the row, so \<open>df.get(column, default)\<close>
  finds the column and its default is never used.
\<close>

definition rescore_row :: "real option \<Rightarrow> populated \<Rightarrow> enriched" where
  "rescore_row max_pop r =
     (let demand_normalised = (case max_pop of
                                 Some m \<Rightarrow> if m > 0 then population_1km r / m else 0
                               | None \<Rightarrow> 0);
          demand = (if population_1km r < 100 then 0 else demand_normalised);
          original = opportunity_score r;
          weighted = (0.30 * competition_gap r + 0.30 * accessibility_gap r
                      + 0.30 * demand + 0.10 * viability r) * 10;
          score = (if population_1km r < 100 then 0 else weighted)
      in populated.extend (r\<lparr>opportunity_score := score\<rparr>) (enriched.fields demand original))"

fun recalculate_opportunity_with_population ::
  "populated dataframe \<Rightarrow> error + enriched dataframe" where
  "recalculate_opportunity_with_population NoColumns = Inl (KeyError ''population_1km'')"
| "recalculate_opportunity_with_population (Table rows) =
     (let max_pop = series_max (map population_1km rows)
      in Inr (Table (map (rescore_row max_pop) rows)))"

section \<open>The outside world: files, the raster library, the geodesic library\<close>

text \<open>
  What the program reads from its environment is a parameter of the model: which paths
  exist, what a directory lists, what a CSV file parses to (a frame that has the columns of
  the file's header, or an exception), whether writing a file fails, the date used in file
  names, the geodesic distance, and what the raster library returns for a point
  (\<open>Inl\<close>: it raised; \<open>Inr None\<close>: the point is outside the raster).
\<close>

record world =
  path_exists :: "string \<Rightarrow> bool"
  listdir :: "string \<Rightarrow> error + string list"
  glob :: "string \<Rightarrow> string list"
  read_places :: "string \<Rightarrow> error + place list"
  read_analysis :: "string \<Rightarrow> error + opportunity list"
  to_csv :: "string \<Rightarrow> error option"
  today :: string
  geodesic_km :: geodesic
  rasterio_installed :: bool
  raster_sample :: "string \<Rightarrow> real \<Rightarrow> real \<Rightarrow> error + real option"

text \<open>Sequencing of calls that may raise: the first exception ends the computation.\<close>

fun and_then :: "error + 'a \<Rightarrow> ('a \<Rightarrow> error + 'b) \<Rightarrow> error + 'b" where
  "and_then (Inl e) f = Inl e"
| "and_then (Inr x) f = f x"

text \<open>\<open>str.replace(old, new)\<close> for a non-empty \<open>old\<close>, and \<open>str.split(sep)\<close>.\<close>

fun replace_str :: "string \<Rightarrow> string \<Rightarrow> string \<Rightarrow> string" where
  "replace_str old new [] = []"
| "replace_str old new (c # cs) =
     (if old \<noteq> [] \<and> prefix old (c # cs)
      then new @ replace_str old new (drop (length old - 1) cs)
      else c # replace_str old new cs)"

fun split_char :: "char \<Rightarrow> string \<Rightarrow> string list" where
  "split_char sep [] = [[]]"
| "split_char sep (c # cs) =
     (if c = sep then [] # split_char sep cs
      else (case split_char sep cs of w # ws \<Rightarrow> (c # w) # ws | [] \<Rightarrow> [[c]]))"

section \<open>Population Enricher (population_data.py)\<close>










section \<open>The analysis of one category (analyze.py, load_data, save_analysis, analyze_city)\<close>

definition load_data :: "world \<Rightarrow> string \<Rightarrow> string \<Rightarrow> error + place dataframe" where
  "load_data w city business_type =
     and_then (listdir w ''data/raw'') (\<lambda>names.
       (let files = filter (prefix (city @ ''_'' @ business_type @ ''_'')) names
        in if files = []
           then Inl (FileNotFoundError (''No data found for '' @ city @ '' '' @ business_type))
           else and_then (read_places w (''data/raw/'' @ last (sort files)))
                  (\<lambda>rows. Inr (Table rows))))"

definition save_analysis :: "world \<Rightarrow> string \<Rightarrow> string \<Rightarrow> error + string" where
  "save_analysis w city business_type =
     (let filename = ''data/processed/'' @ city @ ''_'' @ business_type @ ''_analysis_''
                       @ today w @ ''.csv''
      in (case to_csv w filename of Some e \<Rightarrow> Inl e | None \<Rightarrow> Inr filename))"

definition CITY_BOUNDS :: "(string \<times> bounds) list" where
  "CITY_BOUNDS =
     [(''milan'', \<lparr>north = 45.535, south = 45.395, east = 9.280, west = 9.065\<rparr>),
      (''copenhagen'', \<lparr>north = 55.727, south = 55.615, east = 12.650, west = 12.453\<rparr>),
      (''bologna'', \<lparr>north = 44.5450, south = 44.4450, east = 11.4000, west = 11.2850\<rparr>),
      (''rome'', \<lparr>north = 42.0500, south = 41.7500, east = 12.7000, west = 12.3500\<rparr>),
      (''turin'', \<lparr>north = 45.1300, south = 45.0100, east = 7.7500, west = 7.6200\<rparr>)]"

text \<open>
  The workflow from the check of the city name to the saved file. The outer \<open>option\<close> is
  \<open>None\<close> when the grid loops do not return; inside, \<open>Inl\<close> is the exception that left
  the function and \<open>Inr\<close> the pair \<open>(results, deserts)\<close>.
\<close>

definition analyze_city ::
  "world \<Rightarrow> string \<Rightarrow> string
     \<Rightarrow> (error + opportunity dataframe \<times> accessibility dataframe) option" where
  "analyze_city w city business_type =
     (case map_of CITY_BOUNDS city of
        None \<Rightarrow> Some (Inl (ValueError (''City '' @ city @ '' not configured'')))
      | Some city_bounds \<Rightarrow>
          (case load_data w city business_type of
             Inl e \<Rightarrow> Some (Inl e)
           | Inr places \<Rightarrow>
               (case create_analysis_grid city_bounds 0.5 of
                  None \<Rightarrow> None
                | Some grid \<Rightarrow>
                    Some
                     (let distances = calculate_distance_matrix (geodesic_km w) grid places
                      in and_then (analyze_accessibility grid distances default_walking_distance_km)
                           (\<lambda>accessibility.
                         and_then (identify_service_deserts accessibility default_threshold_distance_km)
                           (\<lambda>deserts.
                         and_then (calculate_opportunity_scores accessibility)
                           (\<lambda>results.
                         and_then (save_analysis w city business_type)
                           (\<lambda>filename. Inr (results, deserts)))))))))"

section \<open>The batch driver (analyze.py, analyze_all_business_types)\<close>

definition get_available_business_types :: "world \<Rightarrow> string \<Rightarrow> error + string list" where
  "get_available_business_types w city =
     (if \<not> path_exists w ''data/raw'' then Inr []
      else and_then (listdir w ''data/raw'') (\<lambda>names.
        Inr (sort (remdups (concat (map (\<lambda>file.
          if prefix (city @ ''_'') file \<and> suffix ''.csv'' file
          then (let parts = split_char CHR ''_'' (replace_str ''.csv'' [] file)
                in if length parts \<ge> 3 then [parts ! 1] else [])
          else []) names))))))"

text \<open>
  One entry of \<open>results_summary\<close>: the dict with \<open>'status': 'success'\<close> and its four
  figures, or the dict with \<open>'status': 'error'\<close> and the exception. The mean and the
  maximum of an empty column are \<open>NaN\<close>, written \<open>None\<close>.
\<close>

datatype summary_entry =
    Success nat nat "real option" "real option"
  | Error error

fun status :: "summary_entry \<Rightarrow> string" where
  "status (Success total_locations service_deserts avg_score top_score) = ''success''"
| "status (Error e) = ''error''"

definition series_mean :: "real list \<Rightarrow> real option" where
  "series_mean xs = (if xs = [] then None else Some (sum_list xs / real (length xs)))"

text \<open>
  The body of the \<open>try\<close> statement and its \<open>except Exception\<close> clause, for one business
  type: whatever exception the analysis, the second \<open>load_data\<close> or the column access raises
  becomes an \<open>Error\<close> entry. \<open>None\<close>: the analysis does not return.
\<close>

definition process_business_type :: "world \<Rightarrow> string \<Rightarrow> string \<Rightarrow> summary_entry option" where
  "process_business_type w city biz_type =
     map_option (\<lambda>outcome.
        (case and_then outcome (\<lambda>(results, deserts).
                and_then (load_data w city biz_type) (\<lambda>places.
                  (case results of
                     NoColumns \<Rightarrow> Inl (KeyError ''opportunity_score'')
                   | Table rows \<Rightarrow>
                       Inr (Success (len_df places) (len_df deserts)
                              (series_mean (map opportunity_score rows))
                              (series_max (map opportunity_score rows)))))) of
           Inl e \<Rightarrow> Error e
         | Inr entry \<Rightarrow> entry))
       (analyze_city w city biz_type)"

text \<open>
  The \<open>for\<close> loop over the business types; \<open>results_summary\<close> is a dict, that is a list
  of key-value pairs in insertion order in which a key occurs once.
\<close>

fun batch_loop ::
  "world \<Rightarrow> string \<Rightarrow> string list \<Rightarrow> (string \<times> summary_entry) list
     \<Rightarrow> (string \<times> summary_entry) list option" where
  "batch_loop w city [] results_summary = Some results_summary"
| "batch_loop w city (biz_type # rest) results_summary =
     (case process_business_type w city biz_type of
        None \<Rightarrow> None
      | Some entry \<Rightarrow> batch_loop w city rest (AList.update biz_type entry results_summary))"

text \<open>
  What the driver hands back: the returned dict and the rows of the status table it
  printed (\<open>None\<close> when it returned before the table, having found no business type).
\<close>

record batch_report =
  results_summary :: "(string \<times> summary_entry) list"
  printed_table :: "(string \<times> string) list option"

definition analyze_all_business_types ::
  "world \<Rightarrow> string \<Rightarrow> (error + batch_report) option" where
  "analyze_all_business_types w city =
     (case get_available_business_types w city of
        Inl e \<Rightarrow> Some (Inl e)
      | Inr business_types \<Rightarrow>
          if business_types = []
          then Some (Inr \<lparr>results_summary = [], printed_table = None\<rparr>)
          else map_option (\<lambda>summary.
                 Inr \<lparr>results_summary = summary,
                      printed_table = Some (map (\<lambda>(biz_type, info). (biz_type, status info)) summary)\<rparr>)
               (batch_loop w city business_types []))"

section \<open>Frames as objects: what the classifier and the scorer write\<close>

text \<open>
  A Python variable holds a reference to a frame object, and the column assignments of
  the source write into the object they are applied to. The store is the list of the
  objects allocated so far; a reference is an index into it. \<open>DataFrame.copy()\<close> and a
  boolean-mask selection allocate a new object.
\<close>

datatype frame_object =
    AccessibilityFrame "accessibility dataframe"
  | OpportunityFrame "opportunity dataframe"

type_synonym store = "frame_object list"

fun map_rows :: "('a \<Rightarrow> 'b) \<Rightarrow> 'a dataframe \<Rightarrow> 'b dataframe" where
  "map_rows f NoColumns = NoColumns"
| "map_rows f (Table rows) = Table (map f rows)"

text \<open>The accessibility columns of a frame object (further columns are not read).\<close>

fun accessibility_columns :: "frame_object \<Rightarrow> accessibility dataframe" where
  "accessibility_columns (AccessibilityFrame fr) = fr"
| "accessibility_columns (OpportunityFrame fr) = map_rows accessibility.truncate fr"

text \<open>
  \<open>identify_service_deserts\<close> on the store: the selection is copied into a new object
  before the report is printed, and nothing is assigned to \<open>accessibility_df\<close>.
\<close>

definition identify_service_deserts_on ::
  "store \<Rightarrow> nat \<Rightarrow> real \<Rightarrow> store \<times> (error + nat)" where
  "identify_service_deserts_on h accessibility_df threshold_distance_km =
     (case accessibility_columns (h ! accessibility_df) of
        NoColumns \<Rightarrow> (h, Inl (KeyError ''nearest_distance_km''))
      | Table rows \<Rightarrow>
          (let deserts = length h;
               h' = h @ [AccessibilityFrame
                           (Table (filter (desert_mask threshold_distance_km) rows))]
           in if length rows = 0 then (h', Inl ZeroDivisionError) else (h', Inr deserts)))"

text \<open>
  \<open>calculate_opportunity_scores\<close> on the store: \<open>df = accessibility_df.copy()\<close> allocates
  the object \<open>df\<close>, the four column assignments write into \<open>df\<close>, and \<open>df\<close> is returned.
\<close>

definition calculate_opportunity_scores_on ::
  "store \<Rightarrow> nat \<Rightarrow> store \<times> (error + nat)" where
  "calculate_opportunity_scores_on h accessibility_df =
     (let df = length h;
          h' = h @ [h ! accessibility_df]
      in (case calculate_opportunity_scores (accessibility_columns (h' ! df)) of
            Inl e \<Rightarrow> (h', Inl e)
          | Inr scored \<Rightarrow> (h'[df := OpportunityFrame scored], Inr df)))"

section \<open>Concrete inputs\<close>

text \<open>The rows of a returned frame (none when the call raised).\<close>

fun returned_rows :: "error + 'r dataframe \<Rightarrow> 'r list" where
  "returned_rows (Inl e) = []"
| "returned_rows (Inr df) = iterrows df"

text \<open>
  Four accessibility rows: a cell in the sweet spot, a crowded cell, a cell without any
  facility, and a cell exactly on both desert thresholds.
\<close>

definition sample_cells :: "accessibility list" where
  "sample_cells =
     [\<lparr>a_cell_id = 0, services_within_walking = 2, nearest_distance_km = Fin 0.3,
       avg_distance_top3_km = Fin 0.5, density_per_km2 = 2,
       a_center_lat = 45.40, a_center_lng = 9.10\<rparr>,
      \<lparr>a_cell_id = 1, services_within_walking = 5, nearest_distance_km = Fin 0.1,
       avg_distance_top3_km = Fin 0.2, density_per_km2 = 4,
       a_center_lat = 45.40, a_center_lng = 9.11\<rparr>,
      \<lparr>a_cell_id = 2, services_within_walking = 0, nearest_distance_km = PInf,
       avg_distance_top3_km = PInf, density_per_km2 = 0,
       a_center_lat = 45.41, a_center_lng = 9.10\<rparr>,
      \<lparr>a_cell_id = 3, services_within_walking = 2, nearest_distance_km = Fin 1.5,
       avg_distance_top3_km = Fin 1.7, density_per_km2 = 1,
       a_center_lat = 45.41, a_center_lng = 9.11\<rparr>]"

text \<open>The same cells after supply-only scoring, with population columns attached.\<close>

definition sample_populated :: "populated list" where
  "sample_populated =
     map (\<lambda>(r, pop, pop_1km). opportunity.extend r (populated.fields pop pop_1km))
       (zip (returned_rows (calculate_opportunity_scores (Table sample_cells)))
            [(10, 50), (400, 1000), (0, 0), (200, 500)])"

text \<open>
  A world with nothing on disk, and one whose \<open>data/raw\<close> holds a pharmacy file with one
  facility, a cafe file that cannot be parsed, and a file that is not a data file.
\<close>

definition no_files :: world where
  "no_files =
     \<lparr>path_exists = (\<lambda>p. False),
      listdir = (\<lambda>p. Inl (FileNotFoundError p)),
      glob = (\<lambda>p. []),
      read_places = (\<lambda>p. Inl (FileNotFoundError p)),
      read_analysis = (\<lambda>p. Inl (FileNotFoundError p)),
      to_csv = (\<lambda>p. None),
      today = ''20240101'',
      geodesic_km = (\<lambda>a b. 0),
      rasterio_installed = True,
      raster_sample = (\<lambda>p lat lng. Inl (FileNotFoundError p))\<rparr>"

definition sample_world :: world where
  "sample_world =
     no_files
       \<lparr>path_exists := (\<lambda>p. p = ''data/raw''),
        listdir := (\<lambda>p. if p = ''data/raw''
                        then Inr [''milan_pharmacy_20240101.csv'', ''milan_cafe_20240101.csv'',
                                  ''notes.txt'']
                        else Inl (FileNotFoundError p)),
        read_places := (\<lambda>p. if p = ''data/raw/milan_pharmacy_20240101.csv''
                            then Inr [\<lparr>place_id = ''p1'', p_lat = 45.46, p_lng = 9.19\<rparr>]
                            else Inl (OtherException ''EmptyDataError''))\<rparr>"





section \<open>Auxiliary facts\<close>


subsection \<open>Column maxima and the fields of scored rows\<close>

lemma series_max_Max: "xs \<noteq> [] \<Longrightarrow> series_max xs = Some (Max (set xs))"
proof (induction xs)
  case Nil
  then show ?case by simp
next
  case (Cons x xs)
  show ?case
  proof (cases "xs = []")
    case True
    then show ?thesis by simp
  next
    case False
    with Cons.IH have "series_max xs = Some (Max (set xs))" by simp
    with False show ?thesis by simp
  qed
qed

lemma series_max_Nil_iff: "series_max xs = None \<longleftrightarrow> xs = []"
  by (cases xs) (auto split: option.splits)

lemma score_row_fields:
  "competition_gap (score_row m r) =
     (case m of Some d \<Rightarrow> if d > 0 then 1 - density_per_km2 r / d else 1 | None \<Rightarrow> 1)"
  "accessibility_gap (score_row m r) = clip_upper 3 (nearest_distance_km r) / 3"
  "viability (score_row m r) = viability_of (services_within_walking r)"
  "opportunity_score (score_row m r) =
     (0.40 * competition_gap (score_row m r) + 0.40 * accessibility_gap (score_row m r)
      + 0.20 * viability (score_row m r)) * 10"
  by (simp_all add: score_row_def Let_def accessibility.defs opportunity.defs metrics.defs split: option.splits)

lemma score_row_truncate: "accessibility.truncate (score_row m r) = r"
  by (simp add: score_row_def Let_def accessibility.defs opportunity.defs metrics.defs)


lemma rescore_row_fields:
  "demand_score (rescore_row m r) =
     (if population_1km r < 100 then 0
      else case m of Some d \<Rightarrow> if d > 0 then population_1km r / d else 0 | None \<Rightarrow> 0)"
  "opportunity_score_original (rescore_row m r) = opportunity_score r"
  "opportunity_score (rescore_row m r) =
     (if population_1km r < 100 then 0
      else (0.30 * competition_gap r + 0.30 * accessibility_gap r
            + 0.30 * demand_score (rescore_row m r) + 0.10 * viability r) * 10)"
  "competition_gap (rescore_row m r) = competition_gap r"
  "accessibility_gap (rescore_row m r) = accessibility_gap r"
  "viability (rescore_row m r) = viability r"
  "population_1km (rescore_row m r) = population_1km r"
  by (simp_all add: rescore_row_def Let_def populated.defs enriched.defs split: option.splits)


lemma Max_ge_100:
  assumes "i < length rows" "\<not> population_1km (rows ! i) < 100"
  shows "series_max (map population_1km rows) = Some (Max (population_1km ` set rows))"
    and "0 < Max (population_1km ` set rows)"
proof -
  from assms(1) have ne: "map population_1km rows \<noteq> []" by auto
  from series_max_Max[OF ne]
  show "series_max (map population_1km rows) = Some (Max (population_1km ` set rows))" by simp
  have "population_1km (rows ! i) \<in> population_1km ` set rows" using assms(1) by simp
  then have "population_1km (rows ! i) \<le> Max (population_1km ` set rows)" by simp
  with assms(2) show "0 < Max (population_1km ` set rows)" by linarith
qed


lemma viability_of_bounds: "0 \<le> x \<Longrightarrow> 0 \<le> viability_of x \<and> viability_of x \<le> 1"
  by (auto simp: viability_of_def)

lemma clip_upper_bounds: "xnonneg x \<Longrightarrow> 0 \<le> clip_upper 3 x / 3 \<and> clip_upper 3 x / 3 \<le> 1"
  by (cases x) auto

lemma competition_gap_bounds:
  assumes "\<forall>r\<in>set rows. 0 \<le> density_per_km2 r" "r \<in> set rows"
  shows "0 \<le> competition_gap (score_row (series_max (map density_per_km2 rows)) r)
       \<and> competition_gap (score_row (series_max (map density_per_km2 rows)) r) \<le> 1"
proof -
  from assms(2) have ne: "map density_per_km2 rows \<noteq> []" by auto
  have m: "series_max (map density_per_km2 rows) = Some (Max (density_per_km2 ` set rows))"
    using series_max_Max[OF ne] by simp
  have le: "density_per_km2 r \<le> Max (density_per_km2 ` set rows)" using assms(2) by simp
  have ge: "0 \<le> density_per_km2 r" using assms by blast
  show ?thesis
    using le ge by (simp add: score_row_fields m divide_le_eq_1)
qed

lemma weighted_sum_bounds3:
  fixes a b c :: real
  assumes "0 \<le> a \<and> a \<le> 1" "0 \<le> b \<and> b \<le> 1" "0 \<le> c \<and> c \<le> 1"
  shows "0 \<le> (0.40 * a + 0.40 * b + 0.20 * c) * 10 \<and> (0.40 * a + 0.40 * b + 0.20 * c) * 10 \<le> 10"
  using assms by simp

lemma weighted_sum_bounds4:
  fixes a b c d :: real
  assumes "0 \<le> a \<and> a \<le> 1" "0 \<le> b \<and> b \<le> 1" "0 \<le> d \<and> d \<le> 1" "0 \<le> c \<and> c \<le> 1"
  shows "0 \<le> (0.30 * a + 0.30 * b + 0.30 * d + 0.10 * c) * 10
       \<and> (0.30 * a + 0.30 * b + 0.30 * d + 0.10 * c) * 10 \<le> 10"
  using assms by simp

lemma score_row_bounds:
  assumes "\<forall>r\<in>set rows. 0 \<le> density_per_km2 r \<and> xnonneg (nearest_distance_km r)
             \<and> 0 \<le> services_within_walking r"
      and "r \<in> set rows"
  defines "s \<equiv> score_row (series_max (map density_per_km2 rows)) r"
  shows "0 \<le> competition_gap s \<and> competition_gap s \<le> 1"
    and "0 \<le> accessibility_gap s \<and> accessibility_gap s \<le> 1"
    and "0 \<le> viability s \<and> viability s \<le> 1"
    and "0 \<le> opportunity_score s \<and> opportunity_score s \<le> 10"
proof -
  show cg: "0 \<le> competition_gap s \<and> competition_gap s \<le> 1"
    unfolding s_def using assms(1,2) by (intro competition_gap_bounds) auto
  show ag: "0 \<le> accessibility_gap s \<and> accessibility_gap s \<le> 1"
    unfolding s_def using assms(1,2) clip_upper_bounds by (simp add: score_row_fields)
  show v: "0 \<le> viability s \<and> viability s \<le> 1"
    unfolding s_def using assms(1,2) viability_of_bounds by (simp add: score_row_fields)
  have "opportunity_score s = (0.40 * competition_gap s + 0.40 * accessibility_gap s + 0.20 * viability s) * 10"
    unfolding s_def by (rule score_row_fields(4))
  with weighted_sum_bounds3[OF cg ag v] show "0 \<le> opportunity_score s \<and> opportunity_score s \<le> 10"
    by simp
qed


subsection \<open>The sample cells\<close>

lemma sample_scored:
  "calculate_opportunity_scores (Table sample_cells) = Inr (Table (map (score_row (Some 4)) sample_cells))"
  by (simp add: sample_cells_def Let_def)



lemma sample_populated_rows:
  "map population_1km sample_populated = [50, 1000, 0, 500]"
  "length sample_populated = 4"
  "map opportunity.truncate sample_populated = map (score_row (Some 4)) sample_cells"
  by (simp_all add: sample_populated_def sample_scored, simp_all add: sample_cells_def opportunity.defs populated.defs accessibility.defs metrics.defs score_row_def Let_def)

lemma sample_populated_Max: "Max (population_1km ` set sample_populated) = 1000"
proof -
  have "population_1km ` set sample_populated = set (map population_1km sample_populated)" by simp
  also have "\<dots> = {50, 1000, 0, 500}" by (simp only: sample_populated_rows) simp
  finally show ?thesis by simp
qed

lemma sample_populated_nth:
  "population_1km (sample_populated ! 0) = 50"
  "population_1km (sample_populated ! 1) = 1000"
  "population_1km (sample_populated ! 3) = 500"
  "competition_gap (sample_populated ! 0) = 1 / 2"
  "accessibility_gap (sample_populated ! 0) = 1 / 10"
  "viability (sample_populated ! 0) = 1"
  "opportunity_score (sample_populated ! 0) = 4.4"
  "competition_gap (sample_populated ! 3) = 3 / 4"
  "accessibility_gap (sample_populated ! 3) = 1 / 2"
  "viability (sample_populated ! 3) = 1"
  "opportunity_score (sample_populated ! 3) = 7"
  by (simp_all add: sample_populated_def sample_scored, simp_all add: sample_cells_def opportunity.defs populated.defs accessibility.defs metrics.defs score_row_def Let_def viability_of_def)

subsection \<open>Bounds of the demand-weighted score\<close>

lemma truncate_fields:
  "competition_gap (opportunity.truncate p) = competition_gap p"
  "accessibility_gap (opportunity.truncate p) = accessibility_gap p"
  "viability (opportunity.truncate p) = viability p"
  "opportunity_score (opportunity.truncate p) = opportunity_score p"
  by (simp_all add: opportunity.truncate_def)

lemma demand_bounds:
  assumes "\<forall>p\<in>set prows. 0 \<le> population_1km p" "p \<in> set prows"
  shows "0 \<le> demand_score (rescore_row (series_max (map population_1km prows)) p)
       \<and> demand_score (rescore_row (series_max (map population_1km prows)) p) \<le> 1"
proof -
  from assms(2) have ne: "map population_1km prows \<noteq> []" by auto
  have m: "series_max (map population_1km prows) = Some (Max (population_1km ` set prows))"
    using series_max_Max[OF ne] by simp
  have le: "population_1km p \<le> Max (population_1km ` set prows)" using assms(2) by simp
  have ge: "0 \<le> population_1km p" using assms by blast
  show ?thesis
    using le ge by (simp add: rescore_row_fields m divide_le_eq_1)
qed

lemma rescore_row_bounds:
  assumes "0 \<le> competition_gap p \<and> competition_gap p \<le> 1"
      and "0 \<le> accessibility_gap p \<and> accessibility_gap p \<le> 1"
      and "0 \<le> viability p \<and> viability p \<le> 1"
      and "0 \<le> demand_score (rescore_row m p) \<and> demand_score (rescore_row m p) \<le> 1"
  shows "0 \<le> opportunity_score (rescore_row m p) \<and> opportunity_score (rescore_row m p) \<le> 10"
proof (cases "population_1km p < 100")
  case True
  then show ?thesis by (simp add: rescore_row_fields(3))
next
  case False
  then have "opportunity_score (rescore_row m p) =
    (0.30 * competition_gap p + 0.30 * accessibility_gap p
       + 0.30 * demand_score (rescore_row m p) + 0.10 * viability p) * 10"
    by (simp add: rescore_row_fields(3))
  with weighted_sum_bounds4[OF assms(1,2,4,3)] show ?thesis by simp
qed

subsection \<open>Comparison with infinity, and the scorer's frame\<close>

lemma xgt_cases: "xgt x t \<longleftrightarrow> (\<exists>d. x = Fin d \<and> t < d) \<or> x = PInf"
  by (cases x) auto

lemma map_truncate_score_row: "map accessibility.truncate (map (score_row m) rows) = rows"
  by (induction rows) (simp_all add: score_row_truncate)

subsection \<open>The grid loops return\<close>

lemma steps_Suc:
  assumes "0 < step" "lo \<le> hi"
  shows "steps lo hi step = Suc (steps (lo + step) hi step)"
proof (cases "lo + step \<le> hi")
  case True
  have "(hi - lo) / step = (hi - (lo + step)) / step + 1" using assms by (simp add: field_simps)
  then have "\<lfloor>(hi - lo) / step\<rfloor> = \<lfloor>(hi - (lo + step)) / step\<rfloor> + 1" by simp
  moreover have "0 \<le> \<lfloor>(hi - (lo + step)) / step\<rfloor>" using True assms by simp
  ultimately show ?thesis using True assms by (simp add: steps_def nat_add_distrib)
next
  case False
  then have "(hi - lo) / step < 1" using assms by (simp add: field_simps)
  moreover have "0 \<le> (hi - lo) / step" using assms by simp
  ultimately have "\<lfloor>(hi - lo) / step\<rfloor> = 0" by linarith
  then show ?thesis using False assms by (simp add: steps_def)
qed

lemma steps_eq_0_iff: "steps lo hi step = 0 \<longleftrightarrow> \<not> lo \<le> hi"
  by (simp add: steps_def)

lemma lng_loop_returns:
  assumes "0 < lng_step \<or> east b < lng"
  shows "\<exists>row. lng_loop b lat_step lng_step lat (cells, cid) lng
                 = Some (cells @ row, cid + int (length row))
             \<and> length row = steps lng (east b) lng_step"
  using assms
proof (induction "steps lng (east b) lng_step" arbitrary: lng cells cid)
  case 0
  then have "\<not> lng \<le> east b" by (simp add: steps_eq_0_iff)
  then show ?case using 0 by (subst lng_loop.simps) simp
next
  case (Suc n)
  from Suc.hyps(2) have le: "lng \<le> east b" by (auto simp: steps_def split: if_splits)
  with Suc.prems have pos: "0 < lng_step" by auto
  let ?cell = "\<lparr>cell_id = cid, center_lat = lat, center_lng = lng,
                  lat_min = lat - lat_step / 2, lat_max = lat + lat_step / 2,
                  lng_min = lng - lng_step / 2, lng_max = lng + lng_step / 2\<rparr>"
  from Suc.hyps(2) steps_Suc[OF pos le]
  have n: "n = steps (lng + lng_step) (east b) lng_step" by simp
  from Suc.hyps(1)[OF n, of "cells @ [?cell]" "cid + 1"] pos
  obtain row where r:
    "lng_loop b lat_step lng_step lat (cells @ [?cell], cid + 1) (lng + lng_step)
       = Some ((cells @ [?cell]) @ row, cid + 1 + int (length row))"
    "length row = steps (lng + lng_step) (east b) lng_step" by blast
  show ?case
    apply (rule exI[of _ "?cell # row"])
    apply (subst lng_loop.simps)
    using le r steps_Suc[OF pos le] by simp
qed

lemma lat_loop_returns:
  assumes "0 < lat_step \<or> north b < lat" and "0 < lng_step \<or> east b < west b"
  shows "\<exists>new. lat_loop b lat_step lng_step (cells, cid) lat
                 = Some (cells @ new, cid + int (length new))
             \<and> length new = steps lat (north b) lat_step * steps (west b) (east b) lng_step"
  using assms(1)
proof (induction "steps lat (north b) lat_step" arbitrary: lat cells cid)
  case 0
  then have "\<not> lat \<le> north b" by (simp add: steps_eq_0_iff)
  then show ?case using 0 by (subst lat_loop.simps) simp
next
  case (Suc n)
  from Suc.hyps(2) have le: "lat \<le> north b" by (auto simp: steps_def split: if_splits)
  with Suc.prems have pos: "0 < lat_step" by auto
  from Suc.hyps(2) steps_Suc[OF pos le]
  have n: "n = steps (lat + lat_step) (north b) lat_step" by simp
  obtain row where row:
    "lng_loop b lat_step lng_step lat (cells, cid) (west b)
       = Some (cells @ row, cid + int (length row))"
    "length row = steps (west b) (east b) lng_step"
    using lng_loop_returns[OF assms(2)] by blast
  from Suc.hyps(1)[OF n, of "cells @ row" "cid + int (length row)"] pos
  obtain rest where rest:
    "lat_loop b lat_step lng_step (cells @ row, cid + int (length row)) (lat + lat_step)
       = Some ((cells @ row) @ rest, cid + int (length row) + int (length rest))"
    "length rest = steps (lat + lat_step) (north b) lat_step * steps (west b) (east b) lng_step"
    by blast
  show ?case
    apply (rule exI[of _ "row @ rest"])
    apply (subst lat_loop.simps)
    using le row rest steps_Suc[OF pos le] by simp
qed

lemma create_analysis_grid_returns:
  assumes "0 < grid_size_km \<or> north b < south b"
      and "0 < grid_size_km \<and> 0 < cos (radians ((north b + south b) / 2)) \<or> east b < west b"
  shows "\<exists>cells. create_analysis_grid b grid_size_km = Some (DataFrame cells)
           \<and> length cells
               = steps (south b) (north b) (grid_size_km / 111)
                 * steps (west b) (east b)
                     (grid_size_km / (111 * cos (radians ((north b + south b) / 2))))"
proof -
  have 1: "0 < grid_size_km / 111 \<or> north b < south b" using assms(1) by auto
  have 2: "0 < grid_size_km / (111 * cos (radians ((north b + south b) / 2))) \<or> east b < west b"
    using assms(2) by auto
  from lat_loop_returns[OF 1 2, of "[]" 0] show ?thesis
    by (auto simp: create_analysis_grid_def Let_def)
qed


subsection \<open>The cosine of Milan's central latitude\<close>

lemma cos_ge_parabola: "1 - x\<^sup>2 / 2 \<le> cos (x::real)"
proof -
  have "\<bar>sin (x / 2)\<bar> \<le> \<bar>x / 2\<bar>" by (rule abs_sin_x_le_abs_x)
  then have "(sin (x / 2))\<^sup>2 \<le> (x / 2)\<^sup>2" by (simp only: abs_le_square_iff)
  moreover have "cos x = 1 - 2 * (sin (x / 2))\<^sup>2" using cos_double_sin[of "x / 2"] by simp
  ultimately show ?thesis by (simp add: power2_eq_square)
qed

lemma sqrt2_bounds: "1.414 < sqrt 2" "sqrt 2 < 1.4246"
proof -
  have "sqrt ((1.414)\<^sup>2) < sqrt 2" by (rule real_sqrt_less_mono) (simp add: power2_eq_square)
  then show "1.414 < sqrt 2" by simp
  show "sqrt 2 < 1.4246" by (rule real_less_lsqrt) (simp_all add: power2_eq_square)
qed

lemma cos_near_45:
  fixes d :: real
  assumes d0: "0 \<le> d" and d1: "d < 0.0104"
  shows "0.6914 < cos (pi / 4 + d)" "cos (pi / 4 + d) < 0.7123"
proof -
  define k where "k = cos d - sin d"
  define c where "c = cos (pi / 4 + d)"
  define r where "r = sqrt 2"
  have "cos (pi / 4 + d) = sqrt 2 / 2 * (cos d - sin d)"
    by (simp add: cos_add cos_45 sin_45 algebra_simps)
  then have c: "c = r / 2 * k" by (simp only: c_def k_def r_def)
  have sd0: "0 \<le> sin d" using d0 d1 pi_ge_two by (intro sin_ge_zero) auto
  have sd1: "sin d \<le> d" using d0 by (rule sin_x_le_x)
  have cd1: "cos d \<le> 1" by (rule cos_le_one)
  have "d\<^sup>2 \<le> 0.0104\<^sup>2" using d0 d1 by (intro power_mono) auto
  then have cd0: "1 - 0.0104\<^sup>2 / 2 \<le> cos d" using cos_ge_parabola[of d] by simp
  have lo: "0.9895 \<le> k" unfolding k_def using cd0 sd1 d1 by (simp add: power2_eq_square)
  have hi: "k \<le> 1" unfolding k_def using cd1 sd0 by linarith
  have r: "1.414 < r" "r < 1.4246" using sqrt2_bounds by (simp_all only: r_def)
  have "0.707 * 0.9895 \<le> r / 2 * k"
    using lo r(1) by (intro mult_mono) auto
  then have "0.707 * 0.9895 \<le> c" by (simp only: c)
  then have "0.6914 < c" by simp
  then show "0.6914 < cos (pi / 4 + d)" by (simp only: c_def)
  have "r / 2 * k \<le> r / 2 * 1"
    using hi r(1) by (intro mult_left_mono) auto
  then have "c \<le> r / 2" by (simp add: c)
  then have "c < 0.7123" using r(2) by linarith
  then show "cos (pi / 4 + d) < 0.7123" by (simp only: c_def)
qed

lemma cos_center_lat_milan:
  "0.6914 < cos (radians ((45.535 + 45.395) / 2))" "cos (radians ((45.535 + 45.395) / 2)) < 0.7123"
proof -
  have e: "radians ((45.535 + 45.395) / 2) = pi / 4 + 0.465 * pi / 180"
    by (simp add: radians_def)
  have d0: "0 \<le> 0.465 * pi / 180" by simp
  have d1: "0.465 * pi / 180 < 0.0104" using pi_less_4 by simp
  show "0.6914 < cos (radians ((45.535 + 45.395) / 2))"
    unfolding e by (rule cos_near_45(1)[OF d0 d1])
  show "cos (radians ((45.535 + 45.395) / 2)) < 0.7123"
    unfolding e by (rule cos_near_45(2)[OF d0 d1])
qed


lemma milan_lat_steps: "steps 45.395 45.535 (0.5 / 111) = 32"
  by (simp add: steps_def)

lemma milan_lat_ceiling: "\<lceil>(45.535 - 45.395) / (0.5 / 111 :: real)\<rceil> = 32"
  by (simp add: ceiling_eq_iff)

lemma milan_lng_ratio:
  defines "c \<equiv> cos (radians ((45.535 + 45.395) / 2))"
  shows "33 < (9.280 - 9.065) / (0.5 / (111 * c))" "(9.280 - 9.065) / (0.5 / (111 * c)) < 34"
proof -
  have c: "0.6914 < c" "c < 0.7123" unfolding c_def by (rule cos_center_lat_milan)+
  have e: "(9.280 - 9.065) / (0.5 / (111 * c)) = 47.73 * c" by simp
  show "33 < (9.280 - 9.065) / (0.5 / (111 * c))" unfolding e using c(1) by simp
  show "(9.280 - 9.065) / (0.5 / (111 * c)) < 34" unfolding e using c(2) by simp
qed

lemma milan_lng_steps:
  "steps 9.065 9.280 (0.5 / (111 * cos (radians ((45.535 + 45.395) / 2)))) = 34"
proof -
  let ?q = "(9.280 - 9.065) / (0.5 / (111 * cos (radians ((45.535 + 45.395) / 2))))"
  have "\<lfloor>?q\<rfloor> = 33" using milan_lng_ratio by (simp add: floor_eq_iff)
  moreover have "(9.065::real) \<le> 9.280" by simp
  ultimately show ?thesis unfolding steps_def by simp
qed

lemma milan_lng_ceiling:
  "\<lceil>(9.280 - 9.065) / (0.5 / (111 * cos (radians ((45.535 + 45.395) / 2))))\<rceil> = 34"
  using milan_lng_ratio by (simp add: ceiling_eq_iff)

lemma steps_same: "steps lo lo step = 1"
  by (simp add: steps_def)

subsection \<open>Cells without distance records\<close>

lemma DataFrame_Nil: "DataFrame [] = NoColumns"
  by (simp add: DataFrame_def)

lemma distance_matrix_no_places:
  "calculate_distance_matrix geo grid_cells (Table []) = NoColumns"
  by (simp add: calculate_distance_matrix_def DataFrame_def)

lemma cell_metrics_no_records:
  assumes "\<forall>d\<in>set distance_rows. d_cell_id d \<noteq> cid"
  shows "cell_metrics walking_distance_km distance_rows cid
           = \<lparr>a_cell_id = cid, services_within_walking = 0, nearest_distance_km = PInf,
              avg_distance_top3_km = PInf, density_per_km2 = 0\<rparr>"
proof -
  have "filter (\<lambda>d. d_cell_id d = cid) distance_rows = []" using assms by (simp add: filter_empty_conv)
  then show ?thesis by (simp add: cell_metrics_def)
qed

lemma analyze_accessibility_no_records:
  assumes "\<forall>d\<in>set distance_rows. d_cell_id d \<noteq> cell_id c"
  shows "analyze_accessibility (Table [c]) (Table distance_rows) walking_distance_km
           = Inr (Table [\<lparr>a_cell_id = cell_id c, services_within_walking = 0,
                           nearest_distance_km = PInf, avg_distance_top3_km = PInf,
                           density_per_km2 = 0, a_center_lat = center_lat c,
                           a_center_lng = center_lng c\<rparr>])"
  using cell_metrics_no_records[OF assms, of walking_distance_km]
  by (simp add: DataFrame_def merge_on_cell_id_def metrics.defs accessibility.defs)

lemma score_row_no_records:
  assumes "services_within_walking r = 0" "nearest_distance_km r = PInf"
  shows "viability (score_row m r) = 0.5" "accessibility_gap (score_row m r) = 1.0"
  using assms by (simp_all add: score_row_fields viability_of_def)

subsection \<open>The batch driver\<close>

lemma cos_radians_pos:
  assumes "0 < x" "x < 90"
  shows "0 < cos (radians x)"
proof -
  have "radians x < pi / 2" using assms by (simp add: radians_def)
  moreover have "- (pi / 2) < radians x"
  proof -
    have "0 < x * pi / 180" using assms by simp
    moreover have "- (pi / 2) < 0" by simp
    ultimately show ?thesis unfolding radians_def by (rule less_trans[rotated])
  qed
  ultimately show ?thesis by (rule cos_gt_zero_pi[rotated])
qed

lemma CITY_BOUNDS_mid_lat:
  assumes "map_of CITY_BOUNDS city = Some b"
  shows "0 < (north b + south b) / 2 \<and> (north b + south b) / 2 < 90"
proof -
  from assms have "(city, b) \<in> set CITY_BOUNDS" by (rule map_of_SomeD)
  then show ?thesis by (auto simp: CITY_BOUNDS_def)
qed

lemma configured_grid_returns:
  assumes "map_of CITY_BOUNDS city = Some b"
  shows "\<exists>grid. create_analysis_grid b 0.5 = Some grid"
proof -
  from CITY_BOUNDS_mid_lat[OF assms] have "0 < cos (radians ((north b + south b) / 2))"
    by (intro cos_radians_pos) auto
  then have "(0::real) < 0.5 \<and> 0 < cos (radians ((north b + south b) / 2)) \<or> east b < west b"
    by simp
  moreover have "(0::real) < 0.5 \<or> north b < south b" by simp
  ultimately show ?thesis using create_analysis_grid_returns[of "0.5" b] by blast
qed

lemma analyze_city_returns: "\<exists>outcome. analyze_city w city business_type = Some outcome"
proof (cases "map_of CITY_BOUNDS city")
  case None
  then show ?thesis by (simp add: analyze_city_def)
next
  case (Some b)
  from configured_grid_returns[OF Some] obtain grid where "create_analysis_grid b 0.5 = Some grid"
    by blast
  with Some show ?thesis by (simp add: analyze_city_def split: sum.splits)
qed

lemma process_business_type_returns:
  "\<exists>entry. process_business_type w city biz_type = Some entry"
  using analyze_city_returns[of w city biz_type] by (auto simp: process_business_type_def)

lemma process_business_type_error:
  assumes "analyze_city w city biz_type = Some (Inl e)"
  shows "process_business_type w city biz_type = Some (Error e)"
  using assms by (simp add: process_business_type_def)

lemma status_cases: "status entry = ''success'' \<or> status entry = ''error''"
  by (cases entry) simp_all

lemma update_fresh: "k \<notin> fst ` set al \<Longrightarrow> AList.update k v al = al @ [(k, v)]"
  by (induction al) auto

lemma batch_loop_distinct:
  assumes "distinct business_types" "set business_types \<inter> fst ` set summary = {}"
  shows "\<exists>entries. batch_loop w city business_types summary = Some (summary @ zip business_types entries)
           \<and> length entries = length business_types
           \<and> map Some entries = map (process_business_type w city) business_types"
  using assms
proof (induction business_types arbitrary: summary)
  case Nil
  then show ?case by simp
next
  case (Cons b bs)
  obtain entry where e: "process_business_type w city b = Some entry"
    using process_business_type_returns by blast
  from Cons.prems have fresh: "b \<notin> fst ` set summary" by auto
  have upd: "AList.update b entry summary = summary @ [(b, entry)]" by (rule update_fresh[OF fresh])
  from Cons.prems have "distinct bs" "set bs \<inter> fst ` set (summary @ [(b, entry)]) = {}" by auto
  from Cons.IH[OF this] obtain entries where
    r: "batch_loop w city bs (summary @ [(b, entry)]) = Some ((summary @ [(b, entry)]) @ zip bs entries)"
       "length entries = length bs" "map Some entries = map (process_business_type w city) bs"
    by blast
  show ?case
    by (rule exI[of _ "entry # entries"]) (use e upd r in simp)
qed

lemma get_available_business_types_distinct:
  assumes "get_available_business_types w city = Inr business_types"
  shows "distinct business_types"
proof (cases "path_exists w ''data/raw''")
  case False
  with assms show ?thesis by (simp add: get_available_business_types_def)
next
  case True
  show ?thesis
  proof (cases "listdir w ''data/raw''")
    case (Inl e)
    with True assms show ?thesis by (simp add: get_available_business_types_def)
  next
    case (Inr names)
    with True assms show ?thesis by (auto simp: get_available_business_types_def)
  qed
qed

lemma sample_world_business_types:
  "get_available_business_types sample_world ''milan'' = Inr [''cafe'', ''pharmacy'']"
  by code_simp

lemma sample_world_cafe:
  "analyze_city sample_world ''milan'' ''cafe'' = Some (Inl (OtherException ''EmptyDataError''))"
  by (simp add: analyze_city_def CITY_BOUNDS_def load_data_def sample_world_def no_files_def)

subsection \<open>A successful analysis and its summary entry\<close>

lemma CITY_BOUNDS_ordered:
  assumes "map_of CITY_BOUNDS city = Some b"
  shows "south b \<le> north b \<and> west b \<le> east b"
proof -
  from assms have "(city, b) \<in> set CITY_BOUNDS" by (rule map_of_SomeD)
  then show ?thesis by (auto simp: CITY_BOUNDS_def)
qed

lemma steps_pos: "lo \<le> hi \<Longrightarrow> 0 < steps lo hi step"
  by (simp add: steps_def)

lemma configured_grid_cells:
  assumes "map_of CITY_BOUNDS city = Some b"
  shows "\<exists>c cells. create_analysis_grid b 0.5 = Some (Table (c # cells))"
proof -
  from CITY_BOUNDS_mid_lat[OF assms] have "0 < cos (radians ((north b + south b) / 2))"
    by (intro cos_radians_pos) auto
  then have "(0::real) < 0.5 \<and> 0 < cos (radians ((north b + south b) / 2)) \<or> east b < west b"
    by simp
  moreover have "(0::real) < 0.5 \<or> north b < south b" by simp
  ultimately obtain cells where
    c: "create_analysis_grid b 0.5 = Some (DataFrame cells)"
    and l: "length cells = steps (south b) (north b) (0.5 / 111)
               * steps (west b) (east b) (0.5 / (111 * cos (radians ((north b + south b) / 2))))"
    using create_analysis_grid_returns[of "0.5" b] by blast
  from CITY_BOUNDS_ordered[OF assms] have "0 < length cells"
    unfolding l by (simp add: steps_pos)
  then obtain c0 cs where "cells = c0 # cs" by (cases cells) auto
  with c show ?thesis by (auto simp: DataFrame_def)
qed

lemma merge_on_cell_id_Cons:
  "merge_on_cell_id (map (\<lambda>c. cell_metrics w ds (cell_id c)) (c0 # cells)) (c0 # cells) \<noteq> []"
  by (simp add: merge_on_cell_id_def cell_metrics_def Let_def)

lemma analyze_accessibility_rows:
  "\<exists>rows. analyze_accessibility (Table (c0 # cells)) (Table ds) w = Inr (Table rows) \<and> rows \<noteq> []"
  using merge_on_cell_id_Cons[of w ds c0 cells]
  by (simp add: DataFrame_def)

lemma distance_matrix_rows:
  "\<exists>ds. calculate_distance_matrix geo (Table (c0 # cells)) (Table (p # places)) = Table ds"
  by (simp add: calculate_distance_matrix_def DataFrame_def)

lemma analyze_city_success:
  assumes "map_of CITY_BOUNDS city = Some b"
      and "load_data w city business_type = Inr (Table (p # places))"
      and "\<forall>f. to_csv w f = None"
  shows "\<exists>rows deserts. analyze_city w city business_type = Some (Inr (Table rows, Table deserts))"
proof -
  from configured_grid_cells[OF assms(1)] obtain c0 cells where
    g: "create_analysis_grid b 0.5 = Some (Table (c0 # cells))" by blast
  obtain ds where d: "calculate_distance_matrix (geodesic_km w) (Table (c0 # cells)) (Table (p # places)) = Table ds"
    using distance_matrix_rows by blast
  obtain rows where a: "analyze_accessibility (Table (c0 # cells)) (Table ds) default_walking_distance_km = Inr (Table rows)"
    and ne: "rows \<noteq> []" using analyze_accessibility_rows by blast
  show ?thesis
    using assms g d a ne
    by (simp add: analyze_city_def save_analysis_def Let_def)
qed

lemma analyze_city_Inr:
  assumes "analyze_city w city business_type = Some (Inr (results, deserts))"
  shows "\<exists>rows places. results = Table rows \<and> load_data w city business_type = Inr places"
proof -
  from assms obtain b where b: "map_of CITY_BOUNDS city = Some b"
    by (cases "map_of CITY_BOUNDS city") (auto simp: analyze_city_def)
  from assms b obtain places where p: "load_data w city business_type = Inr places"
    by (cases "load_data w city business_type") (auto simp: analyze_city_def)
  from configured_grid_returns[OF b] obtain grid where g: "create_analysis_grid b 0.5 = Some grid"
    by blast
  let ?d = "calculate_distance_matrix (geodesic_km w) grid places"
  from assms b p g obtain acc where acc: "analyze_accessibility grid ?d default_walking_distance_km = Inr acc"
    by (cases "analyze_accessibility grid ?d default_walking_distance_km")
       (auto simp: analyze_city_def Let_def)
  from assms b p g acc obtain des where des: "identify_service_deserts acc default_threshold_distance_km = Inr des"
    by (cases "identify_service_deserts acc default_threshold_distance_km")
       (auto simp: analyze_city_def Let_def)
  from des obtain arows where ar: "acc = Table arows" by (cases acc) auto
  from assms b p g acc des ar have "\<exists>rows. results = Table rows"
    by (cases "save_analysis w city business_type") (auto simp: analyze_city_def Let_def)
  with p show ?thesis by blast
qed

lemma process_business_type_success:
  assumes "analyze_city w city biz_type = Some (Inr (Table rows, deserts))"
      and "load_data w city biz_type = Inr places"
  shows "process_business_type w city biz_type
           = Some (Success (len_df places) (len_df deserts)
                     (series_mean (map opportunity_score rows))
                     (series_max (map opportunity_score rows)))"
  using assms by (simp add: process_business_type_def)

lemma process_business_type_status:
  assumes "process_business_type w city biz_type = Some entry"
  shows "(status entry = ''success'') = (\<exists>r. analyze_city w city biz_type = Some (Inr r))
       \<and> (status entry = ''error'') = (\<exists>e. analyze_city w city biz_type = Some (Inl e))"
proof -
  obtain outcome where o: "analyze_city w city biz_type = Some outcome"
    using analyze_city_returns by blast
  show ?thesis
  proof (cases outcome)
    case (Inl e)
    with o assms have "entry = Error e" using process_business_type_error by simp
    with o Inl show ?thesis by simp
  next
    case (Inr r)
    obtain results deserts where r: "r = (results, deserts)" by (cases r)
    from analyze_city_Inr[of w city biz_type results deserts] o Inr r
    obtain rows places where rp: "results = Table rows" "load_data w city biz_type = Inr places"
      by auto
    from process_business_type_success[of w city biz_type rows deserts places] o Inr r rp assms
    have "entry = Success (len_df places) (len_df deserts)
                     (series_mean (map opportunity_score rows))
                     (series_max (map opportunity_score rows))" by simp
    with o Inr show ?thesis by simp
  qed
qed

lemma sample_world_pharmacy_load:
  "load_data sample_world ''milan'' ''pharmacy''
     = Inr (Table [\<lparr>place_id = ''p1'', p_lat = 45.46, p_lng = 9.19\<rparr>])"
  by (simp add: load_data_def sample_world_def no_files_def)

lemma sample_world_pharmacy:
  "\<exists>rows deserts. analyze_city sample_world ''milan'' ''pharmacy''
                    = Some (Inr (Table rows, Table deserts))"
proof -
  have b: "map_of CITY_BOUNDS ''milan''
             = Some \<lparr>north = 45.535, south = 45.395, east = 9.280, west = 9.065\<rparr>"
    by (simp add: CITY_BOUNDS_def)
  have c: "\<forall>f. to_csv sample_world f = None" by (simp add: sample_world_def no_files_def)
  from analyze_city_success[OF b sample_world_pharmacy_load c] show ?thesis .
qed

subsection \<open>The enricher with a raster that cannot be read\<close>







subsection \<open>Degenerate grids and the sample worlds of the enricher\<close>













section \<open>The claims\<close>

subsection \<open>C1\<close>

text \<open>
  C1. For every set of accessibility records the supply-only scorer returns one scored row
  per cell, with \<open>competition_gap = 1 - density_per_km2 / max_density\<close> when the maximum
  density of the set is positive and \<open>1.0\<close> otherwise (densities are not negative, so
  otherwise means that the maximum is 0), \<open>accessibility_gap = min(nearest_distance_km, 3.0) / 3.0\<close>
  (which is 1 for a distance of \<open>+infinity\<close>), \<open>viability\<close> equal to 1.0 for one to three
  services within walking distance, to 0.5 for none and to
  \<open>max(0, 1 - (services_within_walking - 3) / 10)\<close> otherwise, and
  \<open>opportunity_score = 10 * (0.40 * competition_gap + 0.40 * accessibility_gap + 0.20 * viability)\<close>.
\<close>

theorem supply_only_formula:
  "\<exists>out. calculate_opportunity_scores (Table rows) = Inr (Table out) \<and> length out = length rows \<and>
     (\<forall>i<length rows.
        competition_gap (out ! i) =
          (if 0 < Max (density_per_km2 ` set rows)
           then 1 - density_per_km2 (rows ! i) / Max (density_per_km2 ` set rows) else 1.0) \<and>
        accessibility_gap (out ! i) =
          (case nearest_distance_km (rows ! i) of Fin d \<Rightarrow> min d 3.0 / 3.0 | PInf \<Rightarrow> 3.0 / 3.0) \<and>
        (1 \<le> services_within_walking (rows ! i) \<and> services_within_walking (rows ! i) \<le> 3
           \<longrightarrow> viability (out ! i) = 1.0) \<and>
        (services_within_walking (rows ! i) = 0 \<longrightarrow> viability (out ! i) = 0.5) \<and>
        (services_within_walking (rows ! i) < 0 \<or> 3 < services_within_walking (rows ! i)
           \<longrightarrow> viability (out ! i)
                = max 0 (1 - (real_of_int (services_within_walking (rows ! i)) - 3) / 10)) \<and>
        opportunity_score (out ! i) =
          10 * (0.40 * competition_gap (out ! i) + 0.40 * accessibility_gap (out ! i)
                + 0.20 * viability (out ! i)))"
proof -
  let ?m = "series_max (map density_per_km2 rows)"
  let ?out = "map (score_row ?m) rows"
  have ret: "calculate_opportunity_scores (Table rows) = Inr (Table ?out)" by simp
  have "\<forall>i<length rows. ?m = Some (Max (density_per_km2 ` set rows))"
  proof (intro allI impI)
    fix i assume "i < length rows"
    then have "map density_per_km2 rows \<noteq> []" by auto
    from series_max_Max[OF this] show "?m = Some (Max (density_per_km2 ` set rows))" by simp
  qed
  then have body: "\<forall>i<length rows.
        competition_gap (?out ! i) =
          (if 0 < Max (density_per_km2 ` set rows)
           then 1 - density_per_km2 (rows ! i) / Max (density_per_km2 ` set rows) else 1.0) \<and>
        accessibility_gap (?out ! i) =
          (case nearest_distance_km (rows ! i) of Fin d \<Rightarrow> min d 3.0 / 3.0 | PInf \<Rightarrow> 3.0 / 3.0) \<and>
        (1 \<le> services_within_walking (rows ! i) \<and> services_within_walking (rows ! i) \<le> 3
           \<longrightarrow> viability (?out ! i) = 1.0) \<and>
        (services_within_walking (rows ! i) = 0 \<longrightarrow> viability (?out ! i) = 0.5) \<and>
        (services_within_walking (rows ! i) < 0 \<or> 3 < services_within_walking (rows ! i)
           \<longrightarrow> viability (?out ! i)
                = max 0 (1 - (real_of_int (services_within_walking (rows ! i)) - 3) / 10)) \<and>
        opportunity_score (?out ! i) =
          10 * (0.40 * competition_gap (?out ! i) + 0.40 * accessibility_gap (?out ! i)
                + 0.20 * viability (?out ! i))"
    by (auto simp: score_row_fields viability_of_def split: xreal.splits)
  show ?thesis
    by (rule exI[of _ ?out]) (use ret body in simp)
qed

theorem supply_only_formula_witness:
  "\<exists>out. calculate_opportunity_scores (Table sample_cells) = Inr (Table out) \<and> length out = 4 \<and>
     competition_gap (out ! 0) = 1 / 2 \<and> accessibility_gap (out ! 0) = 1 / 10 \<and>
     viability (out ! 0) = 1 \<and> opportunity_score (out ! 0) = 4.4 \<and>
     viability (out ! 1) = 0.8 \<and>
     competition_gap (out ! 2) = 1 \<and> accessibility_gap (out ! 2) = 1 \<and>
     viability (out ! 2) = 0.5 \<and> opportunity_score (out ! 2) = 9"
proof -
  from supply_only_formula[of sample_cells] obtain out where
    ret: "calculate_opportunity_scores (Table sample_cells) = Inr (Table out)"
    and len: "length out = length sample_cells"
    and body: "\<forall>i<length sample_cells.
        competition_gap (out ! i) =
          (if 0 < Max (density_per_km2 ` set sample_cells)
           then 1 - density_per_km2 (sample_cells ! i) / Max (density_per_km2 ` set sample_cells) else 1.0) \<and>
        accessibility_gap (out ! i) =
          (case nearest_distance_km (sample_cells ! i) of Fin d \<Rightarrow> min d 3.0 / 3.0 | PInf \<Rightarrow> 3.0 / 3.0) \<and>
        (1 \<le> services_within_walking (sample_cells ! i) \<and> services_within_walking (sample_cells ! i) \<le> 3
           \<longrightarrow> viability (out ! i) = 1.0) \<and>
        (services_within_walking (sample_cells ! i) = 0 \<longrightarrow> viability (out ! i) = 0.5) \<and>
        (services_within_walking (sample_cells ! i) < 0 \<or> 3 < services_within_walking (sample_cells ! i)
           \<longrightarrow> viability (out ! i)
                = max 0 (1 - (real_of_int (services_within_walking (sample_cells ! i)) - 3) / 10)) \<and>
        opportunity_score (out ! i) =
          10 * (0.40 * competition_gap (out ! i) + 0.40 * accessibility_gap (out ! i)
                + 0.20 * viability (out ! i))"
    by blast
  have mx: "Max (density_per_km2 ` set sample_cells) = 4" by (simp add: sample_cells_def)
  have l4: "length sample_cells = 4" by (simp add: sample_cells_def)
  from body[rule_format, of 0] body[rule_format, of 1] body[rule_format, of 2]
  have "competition_gap (out ! 0) = 1 / 2 \<and> accessibility_gap (out ! 0) = 1 / 10 \<and>
     viability (out ! 0) = 1 \<and> opportunity_score (out ! 0) = 4.4 \<and>
     viability (out ! 1) = 0.8 \<and>
     competition_gap (out ! 2) = 1 \<and> accessibility_gap (out ! 2) = 1 \<and>
     viability (out ! 2) = 0.5 \<and> opportunity_score (out ! 2) = 9"
    unfolding mx l4 by (simp add: sample_cells_def)
  with ret len l4 show ?thesis by auto
qed

subsection \<open>C2\<close>

text \<open>
  C2. Under the demand-weighted policy every cell with \<open>population_1km < 100\<close> ends with
  \<open>demand_score = 0\<close> and \<open>opportunity_score = 0\<close>, whatever its competition gap,
  accessibility gap and viability are.
\<close>

theorem demand_floor:
  "\<exists>out. recalculate_opportunity_with_population (Table rows) = Inr (Table out) \<and>
     length out = length rows \<and>
     (\<forall>i<length rows. population_1km (rows ! i) < 100 \<longrightarrow>
        demand_score (out ! i) = 0 \<and> opportunity_score (out ! i) = 0)"
  by (simp add: rescore_row_fields)

theorem demand_floor_witness:
  "\<exists>out. recalculate_opportunity_with_population (Table sample_populated) = Inr (Table out) \<and>
     population_1km (sample_populated ! 0) < 100 \<and>
     competition_gap (sample_populated ! 0) = 1 / 2 \<and>
     demand_score (out ! 0) = 0 \<and> opportunity_score (out ! 0) = 0"
proof -
  from demand_floor[of sample_populated] obtain out where
    ret: "recalculate_opportunity_with_population (Table sample_populated) = Inr (Table out)"
    and body: "\<forall>i<length sample_populated. population_1km (sample_populated ! i) < 100 \<longrightarrow>
        demand_score (out ! i) = 0 \<and> opportunity_score (out ! i) = 0"
    by blast
  from body[rule_format, of 0] have "demand_score (out ! 0) = 0 \<and> opportunity_score (out ! 0) = 0"
    by (simp add: sample_populated_rows(2) sample_populated_nth)
  with ret show ?thesis by (auto simp: sample_populated_nth)
qed

subsection \<open>C3\<close>

text \<open>
  C3. A cell of a classified table is a service desert if and only if its
  \<open>nearest_distance_km\<close> exceeds 1.5 (\<open>+infinity\<close> does) or its \<open>services_within_walking\<close>
  is below 2; a cell with \<open>nearest_distance_km\<close> exactly 1.5 and \<open>services_within_walking\<close>
  exactly 2 is not a desert.
\<close>

theorem desert_classification:
  assumes "rows \<noteq> []"
  shows "\<exists>deserts.
           identify_service_deserts (Table rows) default_threshold_distance_km
             = Inr (Table deserts) \<and>
           (\<forall>r. r \<in> set deserts \<longleftrightarrow>
                  r \<in> set rows \<and>
                  ((\<exists>d. nearest_distance_km r = Fin d \<and> 1.5 < d)
                   \<or> nearest_distance_km r = PInf
                   \<or> services_within_walking r < 2)) \<and>
           (\<forall>r\<in>set rows. nearest_distance_km r = Fin 1.5 \<and> services_within_walking r = 2
                  \<longrightarrow> r \<notin> set deserts)"
  using assms
  by (auto simp: desert_mask_def default_threshold_distance_km_def xgt_cases)

theorem desert_classification_witness:
  "\<exists>deserts.
      identify_service_deserts (Table sample_cells) default_threshold_distance_km
        = Inr (Table deserts) \<and>
      sample_cells ! 0 \<notin> set deserts \<and> sample_cells ! 1 \<notin> set deserts \<and>
      sample_cells ! 2 \<in> set deserts \<and>
      nearest_distance_km (sample_cells ! 3) = Fin 1.5 \<and>
      services_within_walking (sample_cells ! 3) = 2 \<and>
      sample_cells ! 3 \<notin> set deserts"
proof -
  have ne: "sample_cells \<noteq> []" by (simp add: sample_cells_def)
  from desert_classification[OF ne] obtain deserts where
    ret: "identify_service_deserts (Table sample_cells) default_threshold_distance_km
             = Inr (Table deserts)"
    and iff: "\<And>r. r \<in> set deserts \<longleftrightarrow>
                  r \<in> set sample_cells \<and>
                  ((\<exists>d. nearest_distance_km r = Fin d \<and> 1.5 < d)
                   \<or> nearest_distance_km r = PInf
                   \<or> services_within_walking r < 2)"
    by blast
  have "sample_cells ! 0 \<notin> set deserts" "sample_cells ! 1 \<notin> set deserts"
       "sample_cells ! 2 \<in> set deserts" "sample_cells ! 3 \<notin> set deserts"
    unfolding iff by (simp_all add: sample_cells_def)
  moreover have "nearest_distance_km (sample_cells ! 3) = Fin 1.5"
       "services_within_walking (sample_cells ! 3) = 2"
    by (simp_all add: sample_cells_def)
  ultimately show ?thesis using ret by blast
qed

subsection \<open>C4\<close>

text \<open>
  C4. For accessibility records with non-negative densities, non-negative nearest
  distances (\<open>+infinity\<close> included) and non-negative service counts, and for arbitrary
  non-negative populations attached to the scored rows, every \<open>opportunity_score\<close> lies
  in the closed interval from 0 to 10, under the supply-only policy and under the
  demand-weighted policy.
\<close>

theorem score_bounds:
  assumes nonneg: "\<forall>r\<in>set rows. 0 \<le> density_per_km2 r \<and> xnonneg (nearest_distance_km r)
                     \<and> 0 \<le> services_within_walking r"
      and ext: "map opportunity.truncate prows
                  = returned_rows (calculate_opportunity_scores (Table rows))"
      and pops: "\<forall>p\<in>set prows. 0 \<le> population_1km p"
  shows "\<exists>scored rescored.
           calculate_opportunity_scores (Table rows) = Inr (Table scored) \<and>
           recalculate_opportunity_with_population (Table prows) = Inr (Table rescored) \<and>
           length scored = length rows \<and> length rescored = length rows \<and>
           (\<forall>s\<in>set scored. 0 \<le> opportunity_score s \<and> opportunity_score s \<le> 10) \<and>
           (\<forall>s\<in>set rescored. 0 \<le> opportunity_score s \<and> opportunity_score s \<le> 10)"
proof -
  let ?md = "series_max (map density_per_km2 rows)"
  let ?mp = "series_max (map population_1km prows)"
  let ?scored = "map (score_row ?md) rows"
  let ?rescored = "map (rescore_row ?mp) prows"
  have r1: "calculate_opportunity_scores (Table rows) = Inr (Table ?scored)" by (simp add: Let_def)
  have r2: "recalculate_opportunity_with_population (Table prows) = Inr (Table ?rescored)"
    by (simp add: Let_def)
  from ext r1 have ext': "map opportunity.truncate prows = ?scored" by simp
  then have len: "length prows = length rows" by (metis length_map)
  have b1: "\<forall>s\<in>set ?scored. 0 \<le> opportunity_score s \<and> opportunity_score s \<le> 10"
    using score_row_bounds(4)[OF nonneg] by auto
  have b2: "\<forall>s\<in>set ?rescored. 0 \<le> opportunity_score s \<and> opportunity_score s \<le> 10"
  proof
    fix s assume "s \<in> set ?rescored"
    then obtain p where p: "p \<in> set prows" and s: "s = rescore_row ?mp p" by auto
    from p have "opportunity.truncate p \<in> set (map opportunity.truncate prows)" by simp
    with ext' obtain r where r: "r \<in> set rows" and t: "opportunity.truncate p = score_row ?md r"
      by auto
    have "0 \<le> competition_gap p \<and> competition_gap p \<le> 1"
      using score_row_bounds(1)[OF nonneg r] truncate_fields(1)[of p] t by simp
    moreover have "0 \<le> accessibility_gap p \<and> accessibility_gap p \<le> 1"
      using score_row_bounds(2)[OF nonneg r] truncate_fields(2)[of p] t by simp
    moreover have "0 \<le> viability p \<and> viability p \<le> 1"
      using score_row_bounds(3)[OF nonneg r] truncate_fields(3)[of p] t by simp
    moreover note demand_bounds[OF pops p]
    ultimately show "0 \<le> opportunity_score s \<and> opportunity_score s \<le> 10"
      unfolding s by (rule rescore_row_bounds)
  qed
  show ?thesis
    apply (rule exI[of _ ?scored])
    apply (rule exI[of _ ?rescored])
    using r1 r2 b1 b2 len by simp
qed

theorem score_bounds_witness:
  "\<exists>scored rescored.
      calculate_opportunity_scores (Table sample_cells) = Inr (Table scored) \<and>
      recalculate_opportunity_with_population (Table sample_populated) = Inr (Table rescored) \<and>
      length scored = 4 \<and> length rescored = 4 \<and>
      nearest_distance_km (sample_cells ! 2) = PInf \<and>
      0 \<le> opportunity_score (scored ! 2) \<and> opportunity_score (scored ! 2) \<le> 10 \<and>
      0 \<le> opportunity_score (rescored ! 3) \<and> opportunity_score (rescored ! 3) \<le> 10"
proof -
  have nonneg: "\<forall>r\<in>set sample_cells. 0 \<le> density_per_km2 r \<and> xnonneg (nearest_distance_km r)
                     \<and> 0 \<le> services_within_walking r"
    by (simp add: sample_cells_def)
  have ext: "map opportunity.truncate sample_populated
                  = returned_rows (calculate_opportunity_scores (Table sample_cells))"
    by (simp only: sample_populated_rows(3) sample_scored returned_rows.simps iterrows.simps)
  have pops: "\<forall>p\<in>set sample_populated. 0 \<le> population_1km p"
  proof -
    have "\<forall>x\<in>set (map population_1km sample_populated). 0 \<le> x"
      by (simp only: sample_populated_rows(1)) simp
    then show ?thesis by simp
  qed
  from score_bounds[OF nonneg ext pops] obtain scored rescored where
    r: "calculate_opportunity_scores (Table sample_cells) = Inr (Table scored)"
       "recalculate_opportunity_with_population (Table sample_populated) = Inr (Table rescored)"
       "length scored = length sample_cells" "length rescored = length sample_cells"
    and b: "\<forall>s\<in>set scored. 0 \<le> opportunity_score s \<and> opportunity_score s \<le> 10"
           "\<forall>s\<in>set rescored. 0 \<le> opportunity_score s \<and> opportunity_score s \<le> 10"
    by blast
  have l4: "length sample_cells = 4" by (simp add: sample_cells_def)
  have "scored ! 2 \<in> set scored" "rescored ! 3 \<in> set rescored" using r(3,4) l4 by simp_all
  with b have "0 \<le> opportunity_score (scored ! 2) \<and> opportunity_score (scored ! 2) \<le> 10 \<and>
      0 \<le> opportunity_score (rescored ! 3) \<and> opportunity_score (rescored ! 3) \<le> 10" by blast
  moreover have "nearest_distance_km (sample_cells ! 2) = PInf" by (simp add: sample_cells_def)
  ultimately show ?thesis using r l4 by auto
qed

subsection \<open>C5\<close>

text \<open>
  C5, at the input on which the code contradicts it: a grid with cells and an empty set
  of facilities. The Distance Matrix Builder returns a frame without columns, and the
  Accessibility Analyzer raises \<open>KeyError\<close> on it instead of producing a row for the cell.
\<close>

theorem no_facility_analysis_fails:
  "calculate_distance_matrix geo (Table (c # cells)) (Table []) = NoColumns \<and>
   analyze_accessibility (Table (c # cells))
       (calculate_distance_matrix geo (Table (c # cells)) (Table []))
       walking_distance_km
     = Inl (KeyError ''cell_id'')"
  by (simp add: distance_matrix_no_places)

subsection \<open>C6\<close>

text \<open>
  C6, as amended. The demand-weighted re-scoring returns one row per cell and keeps each
  cell's previous score in \<open>opportunity_score_original\<close>. For a cell with
  \<open>population_1km >= 100\<close> it sets \<open>demand_score = population_1km / max(population_1km)\<close> and
  \<open>opportunity_score = 10 * (0.30 * competition_gap + 0.30 * accessibility_gap
  + 0.30 * demand_score + 0.10 * viability)\<close>; for a cell with \<open>population_1km < 100\<close> both
  are 0.
\<close>

theorem demand_weighted_formula:
  "\<exists>out. recalculate_opportunity_with_population (Table rows) = Inr (Table out) \<and>
     length out = length rows \<and>
     (\<forall>i<length rows.
        opportunity_score_original (out ! i) = opportunity_score (rows ! i) \<and>
        (100 \<le> population_1km (rows ! i) \<longrightarrow>
           demand_score (out ! i)
             = population_1km (rows ! i) / Max (population_1km ` set rows) \<and>
           opportunity_score (out ! i)
             = 10 * (0.30 * competition_gap (rows ! i) + 0.30 * accessibility_gap (rows ! i)
                     + 0.30 * demand_score (out ! i) + 0.10 * viability (rows ! i))) \<and>
        (population_1km (rows ! i) < 100 \<longrightarrow>
           demand_score (out ! i) = 0 \<and> opportunity_score (out ! i) = 0))"
proof -
  let ?m = "series_max (map population_1km rows)"
  have "\<forall>i<length rows.
        opportunity_score_original (map (rescore_row ?m) rows ! i) = opportunity_score (rows ! i) \<and>
        (100 \<le> population_1km (rows ! i) \<longrightarrow>
           demand_score (map (rescore_row ?m) rows ! i)
             = population_1km (rows ! i) / Max (population_1km ` set rows) \<and>
           opportunity_score (map (rescore_row ?m) rows ! i)
             = 10 * (0.30 * competition_gap (rows ! i) + 0.30 * accessibility_gap (rows ! i)
                     + 0.30 * demand_score (map (rescore_row ?m) rows ! i) + 0.10 * viability (rows ! i))) \<and>
        (population_1km (rows ! i) < 100 \<longrightarrow>
           demand_score (map (rescore_row ?m) rows ! i) = 0 \<and> opportunity_score (map (rescore_row ?m) rows ! i) = 0)"
  proof (intro allI impI)
    fix i assume i: "i < length rows"
    show "opportunity_score_original (map (rescore_row ?m) rows ! i) = opportunity_score (rows ! i) \<and>
        (100 \<le> population_1km (rows ! i) \<longrightarrow>
           demand_score (map (rescore_row ?m) rows ! i)
             = population_1km (rows ! i) / Max (population_1km ` set rows) \<and>
           opportunity_score (map (rescore_row ?m) rows ! i)
             = 10 * (0.30 * competition_gap (rows ! i) + 0.30 * accessibility_gap (rows ! i)
                     + 0.30 * demand_score (map (rescore_row ?m) rows ! i) + 0.10 * viability (rows ! i))) \<and>
        (population_1km (rows ! i) < 100 \<longrightarrow>
           demand_score (map (rescore_row ?m) rows ! i) = 0 \<and> opportunity_score (map (rescore_row ?m) rows ! i) = 0)"
    proof (cases "population_1km (rows ! i) < 100")
      case True
      with i show ?thesis by (simp add: rescore_row_fields)
    next
      case False
      from Max_ge_100[OF i False] i False show ?thesis by (simp add: rescore_row_fields)
    qed
  qed
  then show ?thesis by simp
qed

theorem demand_weighted_formula_witness:
  "\<exists>out. recalculate_opportunity_with_population (Table sample_populated) = Inr (Table out) \<and>
     length out = 4 \<and>
     opportunity_score_original (out ! 0) = 4.4 \<and> demand_score (out ! 0) = 0 \<and>
     opportunity_score (out ! 0) = 0 \<and>
     opportunity_score_original (out ! 3) = 7 \<and> demand_score (out ! 3) = 1 / 2 \<and>
     opportunity_score (out ! 3) = 6.25"
proof -
  from demand_weighted_formula[of sample_populated] obtain out where
    ret: "recalculate_opportunity_with_population (Table sample_populated) = Inr (Table out)"
    and len: "length out = length sample_populated"
    and body: "\<forall>i<length sample_populated.
        opportunity_score_original (out ! i) = opportunity_score (sample_populated ! i) \<and>
        (100 \<le> population_1km (sample_populated ! i) \<longrightarrow>
           demand_score (out ! i)
             = population_1km (sample_populated ! i) / Max (population_1km ` set sample_populated) \<and>
           opportunity_score (out ! i)
             = 10 * (0.30 * competition_gap (sample_populated ! i) + 0.30 * accessibility_gap (sample_populated ! i)
                     + 0.30 * demand_score (out ! i) + 0.10 * viability (sample_populated ! i))) \<and>
        (population_1km (sample_populated ! i) < 100 \<longrightarrow>
           demand_score (out ! i) = 0 \<and> opportunity_score (out ! i) = 0)"
    by blast
  from body[rule_format, of 0] body[rule_format, of 3]
  have "opportunity_score_original (out ! 0) = 4.4 \<and> demand_score (out ! 0) = 0 \<and>
     opportunity_score (out ! 0) = 0 \<and>
     opportunity_score_original (out ! 3) = 7 \<and> demand_score (out ! 3) = 1 / 2 \<and>
     opportunity_score (out ! 3) = 6.25"
    by (simp add: sample_populated_rows(2) sample_populated_nth sample_populated_Max)
  with ret len show ?thesis by (auto simp: sample_populated_rows(2))
qed

text \<open>
  C6 as stated fails on a cell below the population floor: with populations
  50, 1000, 0 and 500 the first cell's \<open>demand_score\<close> is 0, not 50 / 1000.
\<close>

theorem demand_weighted_formula_counterexample:
  "demand_score (returned_rows (recalculate_opportunity_with_population (Table sample_populated)) ! 0)
     \<noteq> population_1km (sample_populated ! 0) / Max (population_1km ` set sample_populated)"
proof -
  have "returned_rows (recalculate_opportunity_with_population (Table sample_populated)) ! 0
        = rescore_row (series_max (map population_1km sample_populated)) (sample_populated ! 0)"
    using sample_populated_rows(2) by (simp add: Let_def)
  then have "demand_score (returned_rows (recalculate_opportunity_with_population (Table sample_populated)) ! 0) = 0"
    by (simp add: rescore_row_fields sample_populated_nth)
  then show ?thesis by (simp add: sample_populated_Max sample_populated_nth)
qed

subsection \<open>C7\<close>




subsection \<open>C8\<close>

text \<open>
  C8. For the bounds north 45.535, south 45.395, east 9.280, west 9.065 and a spacing of
  0.5 km, with \<open>lat_step = 0.5 / 111\<close> and
  \<open>lng_step = 0.5 / (111 * cos(radians((north + south) / 2)))\<close>, the Grid Builder returns,
  and the number of cells it returns is
  \<open>ceil((north - south) / lat_step) * ceil((east - west) / lng_step)\<close>, which is
  32 * 34 = 1088.
\<close>

theorem milan_grid_count:
  defines "b \<equiv> \<lparr>north = 45.535, south = 45.395, east = 9.280, west = 9.065\<rparr>"
  defines "lat_step \<equiv> (0.5 / 111 :: real)"
  defines "lng_step \<equiv> 0.5 / (111 * cos (radians ((45.535 + 45.395) / 2)))"
  shows "\<exists>cells. create_analysis_grid b 0.5 = Some (Table cells) \<and>
           int (length cells)
             = \<lceil>(45.535 - 45.395) / lat_step\<rceil> * \<lceil>(9.280 - 9.065) / lng_step\<rceil> \<and>
           length cells = 1088"
proof -
  have f: "north b = 45.535" "south b = 45.395" "east b = 9.280" "west b = 9.065"
    by (simp_all add: b_def)
  have "(0::real) < 0.6914" by simp
  then have pos: "0 < cos (radians ((north b + south b) / 2))"
    unfolding f using cos_center_lat_milan(1) by (rule less_trans)
  have "(0::real) < 0.5 \<or> north b < south b" by simp
  moreover have "(0::real) < 0.5 \<and> 0 < cos (radians ((north b + south b) / 2)) \<or> east b < west b"
    using pos by simp
  ultimately obtain cells where
    c: "create_analysis_grid b 0.5 = Some (DataFrame cells)"
    and l: "length cells = steps (south b) (north b) (0.5 / 111)
               * steps (west b) (east b) (0.5 / (111 * cos (radians ((north b + south b) / 2))))"
    using create_analysis_grid_returns[of "0.5" b] by blast
  from l have len: "length cells = 32 * 34"
    unfolding f by (simp only: milan_lat_steps milan_lng_steps)
  then have ne: "cells \<noteq> []" by auto
  have ceil: "\<lceil>(45.535 - 45.395) / lat_step\<rceil> * \<lceil>(9.280 - 9.065) / lng_step\<rceil> = 32 * 34"
    unfolding lat_step_def lng_step_def by (simp only: milan_lat_ceiling milan_lng_ceiling)
  have "create_analysis_grid b 0.5 = Some (Table cells)" using c ne by (simp add: DataFrame_def)
  moreover have "int (length cells) = \<lceil>(45.535 - 45.395) / lat_step\<rceil> * \<lceil>(9.280 - 9.065) / lng_step\<rceil>"
    unfolding ceil len by simp
  moreover have "length cells = 1088" using len by simp
  ultimately show ?thesis by blast
qed

subsection \<open>C9\<close>

text \<open>
  C9. Whatever the directory holds, once the business types are listed the batch driver
  returns a summary with exactly one entry per business type, in the order of the list.
  An exception raised while a business type is analysed becomes that type's error entry
  and does not stop the others; an analysis that returns becomes a success entry with the
  number of locations, the number of deserts, and the mean and the maximum of the scores.
  An entry is marked success exactly when the analysis returned and error exactly when it
  raised. When there is a business type, the printed status table has one row per entry.
\<close>

theorem batch_isolates_failures:
  assumes "get_available_business_types w city = Inr business_types"
  shows "\<exists>report. analyze_all_business_types w city = Some (Inr report) \<and>
           map fst (results_summary report) = business_types \<and>
           (\<forall>biz_type\<in>set business_types.
              \<exists>entry. map_of (results_summary report) biz_type = Some entry \<and>
                (\<forall>e. analyze_city w city biz_type = Some (Inl e) \<longrightarrow> entry = Error e) \<and>
                (\<forall>rows deserts places.
                    analyze_city w city biz_type = Some (Inr (Table rows, deserts))
                    \<and> load_data w city biz_type = Inr places \<longrightarrow>
                    entry = Success (len_df places) (len_df deserts)
                              (series_mean (map opportunity_score rows))
                              (series_max (map opportunity_score rows))) \<and>
                (status entry = ''success'')
                  = (\<exists>r. analyze_city w city biz_type = Some (Inr r)) \<and>
                (status entry = ''error'')
                  = (\<exists>e. analyze_city w city biz_type = Some (Inl e))) \<and>
           (business_types \<noteq> [] \<longrightarrow>
              printed_table report
                = Some (map (\<lambda>(biz_type, entry). (biz_type, status entry))
                          (results_summary report)))"
proof -
  have d: "distinct business_types" by (rule get_available_business_types_distinct[OF assms])
  from batch_loop_distinct[OF d, of "[]" w city] obtain entries where
    loop: "batch_loop w city business_types [] = Some (zip business_types entries)"
    and len: "length entries = length business_types"
    and ent: "map Some entries = map (process_business_type w city) business_types"
    by auto
  let ?summary = "zip business_types entries"
  have keys: "map fst ?summary = business_types" using len by simp
  have each: "\<forall>biz_type\<in>set business_types.
              \<exists>entry. map_of ?summary biz_type = Some entry \<and>
                (\<forall>e. analyze_city w city biz_type = Some (Inl e) \<longrightarrow> entry = Error e) \<and>
                (\<forall>rows deserts places.
                    analyze_city w city biz_type = Some (Inr (Table rows, deserts))
                    \<and> load_data w city biz_type = Inr places \<longrightarrow>
                    entry = Success (len_df places) (len_df deserts)
                              (series_mean (map opportunity_score rows))
                              (series_max (map opportunity_score rows))) \<and>
                (status entry = ''success'')
                  = (\<exists>r. analyze_city w city biz_type = Some (Inr r)) \<and>
                (status entry = ''error'')
                  = (\<exists>e. analyze_city w city biz_type = Some (Inl e))"
  proof
    fix biz_type assume "biz_type \<in> set business_types"
    then obtain i where i: "i < length business_types" "business_types ! i = biz_type"
      by (auto simp: in_set_conv_nth)
    have "map_of ?summary (business_types ! i) = Some (entries ! i)"
      using i(1) len d by (intro map_of_zip_nth) simp_all
    then have m: "map_of ?summary biz_type = Some (entries ! i)" by (simp only: i(2))
    have "map Some entries ! i = map (process_business_type w city) business_types ! i"
      by (simp only: ent)
    then have p: "process_business_type w city biz_type = Some (entries ! i)"
      using i len by simp
    have e1: "\<forall>e. analyze_city w city biz_type = Some (Inl e) \<longrightarrow> entries ! i = Error e"
      using p process_business_type_error[of w city biz_type] by auto
    have e2: "\<forall>rows deserts places.
                    analyze_city w city biz_type = Some (Inr (Table rows, deserts))
                    \<and> load_data w city biz_type = Inr places \<longrightarrow>
                    entries ! i = Success (len_df places) (len_df deserts)
                              (series_mean (map opportunity_score rows))
                              (series_max (map opportunity_score rows))"
      using p process_business_type_success[of w city biz_type] by auto
    note e3 = process_business_type_status[OF p]
    show "\<exists>entry. map_of ?summary biz_type = Some entry \<and>
                (\<forall>e. analyze_city w city biz_type = Some (Inl e) \<longrightarrow> entry = Error e) \<and>
                (\<forall>rows deserts places.
                    analyze_city w city biz_type = Some (Inr (Table rows, deserts))
                    \<and> load_data w city biz_type = Inr places \<longrightarrow>
                    entry = Success (len_df places) (len_df deserts)
                              (series_mean (map opportunity_score rows))
                              (series_max (map opportunity_score rows))) \<and>
                (status entry = ''success'')
                  = (\<exists>r. analyze_city w city biz_type = Some (Inr r)) \<and>
                (status entry = ''error'')
                  = (\<exists>e. analyze_city w city biz_type = Some (Inl e))"
      by (rule exI[of _ "entries ! i"]) (intro conjI m e1 e2 e3[THEN conjunct1] e3[THEN conjunct2])
  qed
  show ?thesis
  proof (cases "business_types = []")
    case True
    then show ?thesis using assms by (simp add: analyze_all_business_types_def)
  next
    case False
    let ?report = "\<lparr>results_summary = ?summary,
                     printed_table = Some (map (\<lambda>(biz_type, info). (biz_type, status info)) ?summary)\<rparr>"
    have r1: "analyze_all_business_types w city = Some (Inr ?report)"
      using assms False loop by (simp add: analyze_all_business_types_def)
    have r2: "map fst (results_summary ?report) = business_types" using keys by simp
    have r4: "business_types \<noteq> [] \<longrightarrow> printed_table ?report
                = Some (map (\<lambda>(biz_type, entry). (biz_type, status entry))
                          (results_summary ?report))" by simp
    have r3: "results_summary ?report = ?summary" by simp
    show ?thesis
      by (rule exI[of _ ?report]) (intro conjI r1 r2 r4, simp only: r3, rule each)
  qed
qed

theorem batch_isolates_failures_witness:
  "\<exists>report rows deserts.
     analyze_all_business_types sample_world ''milan'' = Some (Inr report) \<and>
     map fst (results_summary report) = [''cafe'', ''pharmacy''] \<and>
     analyze_city sample_world ''milan'' ''cafe'' = Some (Inl (OtherException ''EmptyDataError'')) \<and>
     map_of (results_summary report) ''cafe'' = Some (Error (OtherException ''EmptyDataError'')) \<and>
     analyze_city sample_world ''milan'' ''pharmacy'' = Some (Inr (Table rows, Table deserts)) \<and>
     map_of (results_summary report) ''pharmacy''
       = Some (Success 1 (length deserts) (series_mean (map opportunity_score rows))
                 (series_max (map opportunity_score rows))) \<and>
     printed_table report = Some [(''cafe'', ''error''), (''pharmacy'', ''success'')]"
proof -
  from batch_isolates_failures[OF sample_world_business_types] obtain report where
    all: "analyze_all_business_types sample_world ''milan'' = Some (Inr report) \<and>
           map fst (results_summary report) = [''cafe'', ''pharmacy''] \<and>
           (\<forall>biz_type\<in>set [''cafe'', ''pharmacy''].
              \<exists>entry. map_of (results_summary report) biz_type = Some entry \<and>
                (\<forall>e. analyze_city sample_world ''milan'' biz_type = Some (Inl e) \<longrightarrow> entry = Error e) \<and>
                (\<forall>rows deserts places.
                    analyze_city sample_world ''milan'' biz_type = Some (Inr (Table rows, deserts))
                    \<and> load_data sample_world ''milan'' biz_type = Inr places \<longrightarrow>
                    entry = Success (len_df places) (len_df deserts)
                              (series_mean (map opportunity_score rows))
                              (series_max (map opportunity_score rows))) \<and>
                (status entry = ''success'')
                  = (\<exists>r. analyze_city sample_world ''milan'' biz_type = Some (Inr r)) \<and>
                (status entry = ''error'')
                  = (\<exists>e. analyze_city sample_world ''milan'' biz_type = Some (Inl e))) \<and>
           ([''cafe'', ''pharmacy''] \<noteq> [] \<longrightarrow>
              printed_table report
                = Some (map (\<lambda>(biz_type, entry). (biz_type, status entry))
                          (results_summary report)))" ..
  note ret = all[THEN conjunct1]
  note keys = all[THEN conjunct2, THEN conjunct1]
  note each = all[THEN conjunct2, THEN conjunct2, THEN conjunct1]
  note table = all[THEN conjunct2, THEN conjunct2, THEN conjunct2]
  obtain rows deserts where ph:
    "analyze_city sample_world ''milan'' ''pharmacy'' = Some (Inr (Table rows, Table deserts))"
    using sample_world_pharmacy by (elim exE)
  let ?ok = "Success 1 (length deserts) (series_mean (map opportunity_score rows))
                 (series_max (map opportunity_score rows))"
  from each sample_world_cafe
  have cafe: "map_of (results_summary report) ''cafe'' = Some (Error (OtherException ''EmptyDataError''))"
    by auto
  from each ph sample_world_pharmacy_load
  have pharmacy: "map_of (results_summary report) ''pharmacy'' = Some ?ok"
    by auto
  obtain s0 s1 where two: "results_summary report = [s0, s1]"
    using keys by (cases "results_summary report") (auto simp: map_eq_Cons_conv)
  from keys two have f: "fst s0 = ''cafe''" "fst s1 = ''pharmacy''" by simp_all
  from cafe pharmacy two f have v: "snd s0 = Error (OtherException ''EmptyDataError'')" "snd s1 = ?ok"
    by (auto split: if_splits simp: prod_eq_iff)
  from table have "printed_table report
                = Some (map (\<lambda>(biz_type, entry). (biz_type, status entry))
                          (results_summary report))" by simp
  then have tab: "printed_table report = Some [(''cafe'', ''error''), (''pharmacy'', ''success'')]"
    using two f v by (simp add: case_prod_unfold)
  show ?thesis
    by (rule exI[of _ report], rule exI[of _ rows], rule exI[of _ deserts])
       (intro conjI ret keys sample_world_cafe cafe ph pharmacy tab)
qed

subsection \<open>C10\<close>

text \<open>
  C10. Neither the Desert Classifier nor the supply-only Opportunity Scorer writes to the
  accessibility table it is given. With the table stored at reference \<open>a\<close>, after either
  call every object that existed before is unchanged, whether the call returned or raised,
  and a returned reference is a new object. The scorer's new object has one row per input
  row, in the same order, in which the seven accessibility columns have the values of the
  input row; the four score columns are the only additions.
\<close>

theorem classifier_and_scorer_leave_input:
  assumes "a < length h" and "h ! a = AccessibilityFrame (Table rows)"
  shows "take (length h) (fst (identify_service_deserts_on h a t)) = h
       \<and> fst (identify_service_deserts_on h a t) ! a = AccessibilityFrame (Table rows)
       \<and> (\<forall>d. snd (identify_service_deserts_on h a t) = Inr d \<longrightarrow> d \<noteq> a)
       \<and> (\<exists>out. calculate_opportunity_scores_on h a
                    = (h @ [OpportunityFrame (Table out)], Inr (length h))
                \<and> (h @ [OpportunityFrame (Table out)]) ! a = AccessibilityFrame (Table rows)
                \<and> length h \<noteq> a
                \<and> map accessibility.truncate out = rows
                \<and> Inr (Table out) = calculate_opportunity_scores (Table rows))"
proof -
  have d: "take (length h) (fst (identify_service_deserts_on h a t)) = h
       \<and> fst (identify_service_deserts_on h a t) ! a = AccessibilityFrame (Table rows)
       \<and> (\<forall>d. snd (identify_service_deserts_on h a t) = Inr d \<longrightarrow> d \<noteq> a)"
    using assms by (auto simp: identify_service_deserts_on_def Let_def nth_append)
  let ?out = "map (score_row (series_max (map density_per_km2 rows))) rows"
  have "calculate_opportunity_scores_on h a = (h @ [OpportunityFrame (Table ?out)], Inr (length h))"
    using assms by (simp add: calculate_opportunity_scores_on_def Let_def nth_append)
  moreover have "(h @ [OpportunityFrame (Table ?out)]) ! a = AccessibilityFrame (Table rows)"
    using assms by (simp add: nth_append)
  moreover have "length h \<noteq> a" using assms by simp
  moreover have "map accessibility.truncate ?out = rows" by (rule map_truncate_score_row)
  moreover have "Inr (Table ?out) = calculate_opportunity_scores (Table rows)" by (simp add: Let_def)
  ultimately show ?thesis using d by blast
qed

theorem classifier_and_scorer_leave_input_witness:
  "take 1 (fst (identify_service_deserts_on [AccessibilityFrame (Table sample_cells)] 0 1.5))
     = [AccessibilityFrame (Table sample_cells)]
   \<and> snd (identify_service_deserts_on [AccessibilityFrame (Table sample_cells)] 0 1.5) = Inr 1
   \<and> (\<exists>out. calculate_opportunity_scores_on [AccessibilityFrame (Table sample_cells)] 0
               = ([AccessibilityFrame (Table sample_cells), OpportunityFrame (Table out)], Inr 1)
            \<and> map accessibility.truncate out = sample_cells
            \<and> map opportunity_score out = [4.4, 26 / 15, 9, 7])"
proof -
  let ?h = "[AccessibilityFrame (Table sample_cells)]"
  have a: "0 < length ?h" by simp
  have b: "?h ! 0 = AccessibilityFrame (Table sample_cells)" by simp
  from classifier_and_scorer_leave_input[OF a b, of "1.5"]
  obtain out where
    d: "take (length ?h) (fst (identify_service_deserts_on ?h 0 1.5)) = ?h"
    and s: "calculate_opportunity_scores_on ?h 0 = (?h @ [OpportunityFrame (Table out)], Inr (length ?h))"
           "map accessibility.truncate out = sample_cells"
           "Inr (Table out) = calculate_opportunity_scores (Table sample_cells)"
    by blast
  have r: "snd (identify_service_deserts_on ?h 0 1.5) = Inr 1"
    by (simp add: identify_service_deserts_on_def Let_def sample_cells_def)
  from s(3) have "out = map (score_row (Some 4)) sample_cells"
    by (simp only: sample_scored) simp
  then have "map opportunity_score out = [4.4, 26 / 15, 9, 7]"
    by (simp add: sample_cells_def score_row_fields viability_of_def)
  with d s r show ?thesis by simp
qed

end
